theory Spec2Isabelle
  imports Complex_Main
begin

section \<open>Python values used by the post-processing code\<close>

text \<open>
  The development embeds \<^verbatim>\<open>examples/efficientpose/debugger.py\<close>: the function
  \<^verbatim>\<open>denormalize_box\<close>, the processor \<^verbatim>\<open>DenormalizeBoxes2D\<close> and the pipeline
  \<^verbatim>\<open>EfficientPosePostprocess\<close>.

  Numbers: Python and numpy floats are modelled by \<^typ>\<open>real\<close>, that is with exact
  arithmetic; rounding errors of IEEE doubles, NaN and infinities are outside the model.
  \<^verbatim>\<open>np.pi\<close> is the constant \<^term>\<open>pi\<close>. Python integers are \<^typ>\<open>int\<close>.

  Exceptions are values: a computation that may raise returns \<open>error + 'a\<close>, with the
  exception on the left.
\<close>

datatype error = ValueError | ZeroDivisionError | IndexError | ShapeMismatchError

definition and_then :: "error + 'a \<Rightarrow> ('a \<Rightarrow> error + 'b) \<Rightarrow> error + 'b" where
  "and_then m f = (case m of Inl e \<Rightarrow> Inl e | Inr x \<Rightarrow> f x)"

text \<open>\<^verbatim>\<open>int(x)\<close> on a float truncates toward zero.\<close>

definition py_int :: "real \<Rightarrow> int" where
  "py_int x = (if 0 \<le> x then \<lfloor>x\<rfloor> else - \<lfloor>- x\<rfloor>)"

text \<open>\<^verbatim>\<open>a / b\<close> on Python floats raises \<^verbatim>\<open>ZeroDivisionError\<close> when \<^verbatim>\<open>b\<close> is zero.\<close>

definition py_div :: "real \<Rightarrow> real \<Rightarrow> error + real" where
  "py_div a b = (if b = 0 then Inl ZeroDivisionError else Inr (a / b))"

text \<open>The slices \<^verbatim>\<open>xs[:k]\<close> and \<^verbatim>\<open>xs[k:]\<close>; a negative bound counts from the end.\<close>

definition slice_upto :: "int \<Rightarrow> 'a list \<Rightarrow> 'a list" where
  "slice_upto k xs = (if 0 \<le> k then take (nat k) xs else take (length xs - nat (- k)) xs)"

definition slice_from :: "int \<Rightarrow> 'a list \<Rightarrow> 'a list" where
  "slice_from k xs = (if 0 \<le> k then drop (nat k) xs else drop (length xs - nat (- k)) xs)"

text \<open>
  Indexing \<^verbatim>\<open>xs[i]\<close> with a Python integer: negative indices count from the end, an index
  out of range raises \<^verbatim>\<open>IndexError\<close>. \<open>index_rows\<close> is numpy's selection
  \<^verbatim>\<open>xs[indices]\<close> of rows by a list of integer indices.
\<close>

definition py_index :: "'a list \<Rightarrow> int \<Rightarrow> error + 'a" where
  "py_index xs i =
     (if 0 \<le> i \<and> i < int (length xs) then Inr (xs ! nat i)
      else if - int (length xs) \<le> i \<and> i < 0 then Inr (xs ! nat (int (length xs) + i))
      else Inl IndexError)"

fun index_rows :: "'a list \<Rightarrow> int list \<Rightarrow> error + 'a list" where
  "index_rows xs [] = Inr []"
| "index_rows xs (i # is) =
     and_then (py_index xs i) (\<lambda>row.
     and_then (index_rows xs is) (\<lambda>rows. Inr (row # rows)))"

text \<open>
  \<^verbatim>\<open>np.squeeze(x, axis=0)\<close> removes the first axis, which must have size one
  (\<^verbatim>\<open>ValueError\<close> otherwise).
\<close>

definition squeeze_axis0 :: "'a list \<Rightarrow> error + 'a" where
  "squeeze_axis0 xs = (case xs of [x] \<Rightarrow> Inr x | _ \<Rightarrow> Inl ValueError)"

text \<open>
  An array whose number of axes is only known at run time: the pose processor receives a
  two-dimensional array on one path of the pipeline and a three-dimensional one on the other.
\<close>

datatype ndarray = Num real | Arr "ndarray list"

definition of1 :: "real list \<Rightarrow> ndarray" where
  "of1 xs = Arr (map Num xs)"

definition of2 :: "real list list \<Rightarrow> ndarray" where
  "of2 xs = Arr (map of1 xs)"

definition of3 :: "real list list list \<Rightarrow> ndarray" where
  "of3 xs = Arr (map of2 xs)"

text \<open>Iterating over an array yields its slices along the first axis.\<close>

fun unstack :: "ndarray \<Rightarrow> ndarray list" where
  "unstack (Arr xs) = xs"
| "unstack (Num x) = []"


section \<open>Boxes and their denormalisation\<close>

record Box2D =
  coordinates :: "real list"
  score :: real
  class_name :: string

record image =
  shape :: "nat list"

text \<open>
  \<^verbatim>\<open>denormalize_box(box, image_shape)\<close>. The unpacking
  \<^verbatim>\<open>x_min, y_min, x_max, y_max = box[:4]\<close> raises \<^verbatim>\<open>ValueError\<close> unless the slice has
  four elements. Height and width are the constants of the source; \<open>image_shape\<close> is not
  read.
\<close>

definition denormalize_box :: "real list \<Rightarrow> nat list \<Rightarrow> error + (int \<times> int \<times> int \<times> int)" where
  "denormalize_box box image_shape =
     (case take 4 box of
        [x_min, y_min, x_max, y_max] \<Rightarrow>
          (let height = 512 * 1.25; width = 640;
               x_min = py_int (x_min * width);
               y_min = py_int (y_min * height);
               x_max = py_int (x_max * width);
               y_max = py_int (y_max * height)
           in Inr (x_min, y_min, x_max, y_max))
      | _ \<Rightarrow> Inl ValueError)"

text \<open>
  The tuple of integers that \<^verbatim>\<open>denormalize_box\<close> returns, stored in the
  \<^verbatim>\<open>coordinates\<close> field of a box.
\<close>

definition as_coordinates :: "int \<times> int \<times> int \<times> int \<Rightarrow> real list" where
  "as_coordinates t = (case t of (a, b, c, d) \<Rightarrow> [of_int a, of_int b, of_int c, of_int d])"

subsection \<open>\<^verbatim>\<open>DenormalizeBoxes2D.call\<close> on a store of box objects\<close>

text \<open>
  The processor assigns to the \<^verbatim>\<open>coordinates\<close> attribute of the objects in the list it is
  given and returns that list. Objects live in a store; the list holds references, so the
  same object may occur twice. The loop stops at the first exception, and the assignments
  made before it stay.
\<close>

type_synonym ref = nat
type_synonym store = "ref \<Rightarrow> Box2D"

fun denormalize_loop :: "nat list \<Rightarrow> store \<Rightarrow> ref list \<Rightarrow> store \<times> error option" where
  "denormalize_loop shp h [] = (h, None)"
| "denormalize_loop shp h (box2D # rest) =
     (case denormalize_box (coordinates (h box2D)) shp of
        Inl e \<Rightarrow> (h, Some e)
      | Inr t \<Rightarrow>
          denormalize_loop shp (h(box2D := (h box2D)\<lparr>coordinates := as_coordinates t\<rparr>)) rest)"

definition DenormalizeBoxes2D_call_store ::
  "store \<Rightarrow> image \<Rightarrow> ref list \<Rightarrow> store \<times> (error + ref list)" where
  "DenormalizeBoxes2D_call_store h img boxes2D =
     (let shp = take 2 (shape img);
          (h', raised) = denormalize_loop shp h boxes2D
      in (h', case raised of Some e \<Rightarrow> Inl e | None \<Rightarrow> Inr boxes2D))"

subsection \<open>\<^verbatim>\<open>DenormalizeBoxes2D.call\<close> on a list of distinct objects\<close>

text \<open>
  Inside the pipeline the boxes are new objects made by the preceding processor, so the list
  can be a list of values and the loop a map that stops at the first exception.
\<close>

fun denormalize_each :: "nat list \<Rightarrow> Box2D list \<Rightarrow> error + Box2D list" where
  "denormalize_each shp [] = Inr []"
| "denormalize_each shp (box2D # rest) =
     and_then (denormalize_box (coordinates box2D) shp) (\<lambda>t.
     and_then (denormalize_each shp rest) (\<lambda>rest'.
     Inr (box2D\<lparr>coordinates := as_coordinates t\<rparr> # rest')))"

definition DenormalizeBoxes2D_call :: "image \<Rightarrow> Box2D list \<Rightarrow> error + Box2D list" where
  "DenormalizeBoxes2D_call img boxes2D = denormalize_each (take 2 (shape img)) boxes2D"


section \<open>The pipeline \<^verbatim>\<open>EfficientPosePostprocess\<close>\<close>

text \<open>
  The processors that the constructor instantiates, with their constructor arguments. The
  classes themselves belong to the library (\<^verbatim>\<open>paz.processors\<close>, \<^verbatim>\<open>paz.abstract\<close>) and to the
  example's \<^verbatim>\<open>processors\<close> module; their bodies are not part of the embedded file.
\<close>

datatype processor =
    Squeeze "nat option"
  | DecodeBoxes "real list list" "real list"
  | RemoveClass "string list" "nat option"
  | NonMaximumSuppressionPerClass real
  | MergeNMSBoxWithClass
  | FilterBoxes "string list" real

text \<open>
  What the library's processors compute is a parameter of the model: \<open>'d\<close> is the type of
  the values that flow through the two sequential processors (arrays of detections), and a
  value of type \<open>'d paz\<close> gives the meaning of every processor the pipeline calls. The
  processors are functions of their arguments; an exception raised inside one of them is
  outside the model.
\<close>

record Pose6D =
  rotation :: ndarray
  translation :: ndarray
  pose_class_name :: string

record 'd paz =
  apply_processor :: "processor \<Rightarrow> 'd \<Rightarrow> 'd"
  ToBoxes2D_call :: "string list \<Rightarrow> 'd \<Rightarrow> Box2D list"
  ScaleBoxes2D_call :: "Box2D list \<Rightarrow> real \<Rightarrow> Box2D list"
  RoundBoxes2D_call :: "Box2D list \<Rightarrow> Box2D list"
  ComputeSelectedIndices_call :: "'d \<Rightarrow> 'd \<Rightarrow> int list"
  ToPose6D_call :: "string list \<Rightarrow> 'd \<Rightarrow> ndarray \<Rightarrow> ndarray \<Rightarrow> Pose6D list"

text \<open>
  Modelled from the spec: \<^verbatim>\<open>SequentialProcessor\<close> (\<^verbatim>\<open>paz.abstract\<close>, not in the embedded
  sources) is an ordered list of processors; calling it feeds the input to the first
  processor and the output of each processor to the next.
\<close>

definition SequentialProcessor :: "'d paz \<Rightarrow> processor list \<Rightarrow> 'd \<Rightarrow> 'd" where
  "SequentialProcessor P processors x = fold (apply_processor P) processors x"

text \<open>The argument with which each processor of a sequence is called, in call order.\<close>

fun stage_inputs :: "'d paz \<Rightarrow> processor list \<Rightarrow> 'd \<Rightarrow> (processor \<times> 'd) list" where
  "stage_inputs P [] x = []"
| "stage_inputs P (p # ps) x = (p, x) # stage_inputs P ps (apply_processor P p x)"

text \<open>
  Modelled from the spec: \<^verbatim>\<open>pr.Scale\<close> (\<^verbatim>\<open>paz.processors\<close>, not in the embedded sources)
  multiplies every value of its input by the scalar it was constructed with.
\<close>

definition Scale_call :: "real \<Rightarrow> real list list \<Rightarrow> real list list" where
  "Scale_call scalar values = map (map (\<lambda>v. v * scalar)) values"

text \<open>
  The attributes that \<^verbatim>\<open>__init__\<close> sets on the pipeline object. \<^verbatim>\<open>ToBoxes2D\<close> and
  \<^verbatim>\<open>ToPose6D\<close> are represented by the class names they are constructed with and
  \<^verbatim>\<open>pr.Scale\<close> by its scalar; the processors constructed without data
  (\<^verbatim>\<open>ScaleBoxes2D\<close>, \<^verbatim>\<open>RoundBoxes2D\<close>, \<^verbatim>\<open>DenormalizeBoxes2D\<close>, \<^verbatim>\<open>ComputeSelectedIndices\<close>,
  \<^verbatim>\<open>Squeeze(axis=0)\<close>) need no field. The default values of the constructor's arguments
  are supplied by the caller of \<open>init\<close>.
\<close>

record EfficientPosePostprocess =
  num_pose_dims :: int
  postprocess_1 :: "processor list"
  postprocess_2 :: "processor list"
  to_boxes2D :: "string list"
  transform_rotations :: real
  to_pose_6D :: "string list"

definition init ::
  "real list list \<Rightarrow> string list \<Rightarrow> real \<Rightarrow> real \<Rightarrow> real list \<Rightarrow> nat option \<Rightarrow> int
     \<Rightarrow> EfficientPosePostprocess" where
  "init prior_boxes class_names score_thresh nms_thresh variances class_arg pose_dims =
     \<lparr> num_pose_dims = pose_dims,
       postprocess_1 =
         [Squeeze None, DecodeBoxes prior_boxes variances, RemoveClass class_names class_arg],
       postprocess_2 =
         [NonMaximumSuppressionPerClass nms_thresh, MergeNMSBoxWithClass,
          FilterBoxes class_names score_thresh],
       to_boxes2D = class_names,
       transform_rotations = pi,
       to_pose_6D = class_names \<rparr>"

text \<open>
  \<^verbatim>\<open>EfficientPosePostprocess.call\<close>. \<open>model_output\<close> is the pair of the detections and the
  transformations, a three-dimensional array (batch, anchor, pose values).
\<close>

definition call ::
  "'d paz \<Rightarrow> EfficientPosePostprocess \<Rightarrow> image \<Rightarrow> 'd \<times> real list list list \<Rightarrow> real \<Rightarrow> 'c
     \<Rightarrow> error + (Box2D list \<times> Pose6D list)" where
  "call P self img model_output image_scale camera_parameter =
     (let (detections, transformations) = model_output;
          box_data = SequentialProcessor P (postprocess_1 self) detections;
          box_data_all = box_data;
          box_data = SequentialProcessor P (postprocess_2 self) box_data;
          boxes2D = ToBoxes2D_call P (to_boxes2D self) box_data
      in and_then (DenormalizeBoxes2D_call img boxes2D) (\<lambda>boxes2D.
         and_then (py_div 1 image_scale) (\<lambda>inverse_scale.
         let boxes2D = ScaleBoxes2D_call P boxes2D inverse_scale;
             boxes2D = RoundBoxes2D_call P boxes2D;
             rotations = map (map (slice_upto (num_pose_dims self))) transformations;
             translations = map (map (slice_from (num_pose_dims self))) transformations
         in if length boxes2D > 0 then
              (let selected_indices = ComputeSelectedIndices_call P box_data_all box_data
               in and_then (squeeze_axis0 rotations) (\<lambda>rotations.
                  and_then (index_rows rotations selected_indices) (\<lambda>rotations.
                  let rotations = Scale_call (transform_rotations self) rotations
                  in and_then (squeeze_axis0 translations) (\<lambda>translations.
                     and_then (index_rows translations selected_indices) (\<lambda>translations.
                     Inr (boxes2D,
                          ToPose6D_call P (to_pose_6D self) box_data
                            (of2 rotations) (of2 translations)))))))
            else Inr (boxes2D,
                      ToPose6D_call P (to_pose_6D self) box_data
                        (of3 rotations) (of3 translations)))))"


subsection \<open>The pipeline with the program state\<close>

text \<open>
  To state that a call does not depend on other calls, \<^verbatim>\<open>call\<close> is modelled a second
  time with the state of the program passed through it. The state holds the pipeline
  object, that is the attributes set by \<^verbatim>\<open>__init__\<close>, and the state of the library, of which
  nothing is known.
\<close>

record 'l py_state =
  self_object :: EfficientPosePostprocess
  library_state :: 'l

text \<open>
  A call of a library processor receives the state and returns the state it leaves: it may
  read and change the pipeline object as well as the library.
\<close>

record ('l, 'd) stateful_paz =
  apply_processor_st :: "processor \<Rightarrow> 'd \<Rightarrow> 'l py_state \<Rightarrow> 'd \<times> 'l py_state"
  ToBoxes2D_st :: "string list \<Rightarrow> 'd \<Rightarrow> 'l py_state \<Rightarrow> Box2D list \<times> 'l py_state"
  ScaleBoxes2D_st :: "Box2D list \<Rightarrow> real \<Rightarrow> 'l py_state \<Rightarrow> Box2D list \<times> 'l py_state"
  RoundBoxes2D_st :: "Box2D list \<Rightarrow> 'l py_state \<Rightarrow> Box2D list \<times> 'l py_state"
  ComputeSelectedIndices_st :: "'d \<Rightarrow> 'd \<Rightarrow> 'l py_state \<Rightarrow> int list \<times> 'l py_state"
  ToPose6D_st ::
    "string list \<Rightarrow> 'd \<Rightarrow> ndarray \<Rightarrow> ndarray \<Rightarrow> 'l py_state \<Rightarrow> Pose6D list \<times> 'l py_state"

text \<open>
  A statement runs in a state and ends in a state, with a value or an exception; after an
  exception the remaining statements are not run. \<open>evaluates\<close> is a computation that
  touches no state (it may raise), \<open>calls\<close> a call of a library processor, \<open>attribute\<close> a
  read of an attribute of \<^verbatim>\<open>self\<close> in the current state.
\<close>

type_synonym ('s, 'a) action = "'s \<Rightarrow> (error + 'a) \<times> 's"

definition then_st :: "('s, 'a) action \<Rightarrow> ('a \<Rightarrow> ('s, 'b) action) \<Rightarrow> ('s, 'b) action" where
  "then_st m f s = (case m s of (Inl e, s') \<Rightarrow> (Inl e, s') | (Inr x, s') \<Rightarrow> f x s')"

definition evaluates :: "error + 'a \<Rightarrow> ('s, 'a) action" where
  "evaluates r s = (r, s)"

definition calls :: "('s \<Rightarrow> 'a \<times> 's) \<Rightarrow> ('s, 'a) action" where
  "calls f s = (case f s of (x, s') \<Rightarrow> (Inr x, s'))"

definition attribute :: "(EfficientPosePostprocess \<Rightarrow> 'a) \<Rightarrow> ('l py_state, 'a) action" where
  "attribute field s = (Inr (field (self_object s)), s)"

fun SequentialProcessor_st ::
  "('l, 'd) stateful_paz \<Rightarrow> processor list \<Rightarrow> 'd \<Rightarrow> 'l py_state \<Rightarrow> 'd \<times> 'l py_state" where
  "SequentialProcessor_st L [] x s = (x, s)"
| "SequentialProcessor_st L (p # ps) x s =
     (case apply_processor_st L p x s of (y, s') \<Rightarrow> SequentialProcessor_st L ps y s')"

text \<open>
  \<^verbatim>\<open>EfficientPosePostprocess.call\<close>, statement by statement in the order of the source.
  \<^verbatim>\<open>DenormalizeBoxes2D\<close> assigns only to the box objects made in the same call; slicing,
  \<^verbatim>\<open>Squeeze(axis=0)\<close>, the selection of rows and \<^verbatim>\<open>pr.Scale\<close> compute on arrays. No statement
  of \<^verbatim>\<open>call\<close> assigns an attribute of \<^verbatim>\<open>self\<close>.
\<close>

definition call_st ::
  "('l, 'd) stateful_paz \<Rightarrow> image \<Rightarrow> 'd \<times> real list list list \<Rightarrow> real \<Rightarrow> 'c
     \<Rightarrow> ('l py_state, Box2D list \<times> Pose6D list) action" where
  "call_st L img model_output image_scale camera_parameter =
     (case model_output of (detections, transformations) \<Rightarrow>
      then_st (attribute postprocess_1) (\<lambda>postprocess_1.
      then_st (calls (SequentialProcessor_st L postprocess_1 detections)) (\<lambda>box_data_all.
      then_st (attribute postprocess_2) (\<lambda>postprocess_2.
      then_st (calls (SequentialProcessor_st L postprocess_2 box_data_all)) (\<lambda>box_data.
      then_st (attribute to_boxes2D) (\<lambda>to_boxes2D.
      then_st (calls (ToBoxes2D_st L to_boxes2D box_data)) (\<lambda>boxes2D.
      then_st (evaluates (DenormalizeBoxes2D_call img boxes2D)) (\<lambda>boxes2D.
      then_st (evaluates (py_div 1 image_scale)) (\<lambda>inverse_scale.
      then_st (calls (ScaleBoxes2D_st L boxes2D inverse_scale)) (\<lambda>boxes2D.
      then_st (calls (RoundBoxes2D_st L boxes2D)) (\<lambda>boxes2D.
      then_st (attribute num_pose_dims) (\<lambda>pose_dims.
      then_st (evaluates (Inr (map (map (slice_upto pose_dims)) transformations))) (\<lambda>rotations.
      then_st (attribute num_pose_dims) (\<lambda>pose_dims.
      then_st (evaluates (Inr (map (map (slice_from pose_dims)) transformations))) (\<lambda>translations.
      (if length boxes2D > 0 then
          then_st (calls (ComputeSelectedIndices_st L box_data_all box_data)) (\<lambda>selected_indices.
          then_st (evaluates (squeeze_axis0 rotations)) (\<lambda>rotations.
          then_st (evaluates (index_rows rotations selected_indices)) (\<lambda>rotations.
          then_st (attribute transform_rotations) (\<lambda>scalar.
          then_st (evaluates (Inr (Scale_call scalar rotations))) (\<lambda>rotations.
          then_st (evaluates (squeeze_axis0 translations)) (\<lambda>translations.
          then_st (evaluates (index_rows translations selected_indices)) (\<lambda>translations.
          then_st (attribute to_pose_6D) (\<lambda>to_pose_6D.
          then_st (calls (ToPose6D_st L to_pose_6D box_data (of2 rotations) (of2 translations))) (\<lambda>poses6D.
          evaluates (Inr (boxes2D, poses6D)))))))))))
        else
          then_st (attribute to_pose_6D) (\<lambda>to_pose_6D.
          then_st (calls (ToPose6D_st L to_pose_6D box_data (of3 rotations) (of3 translations))) (\<lambda>poses6D.
          evaluates (Inr (boxes2D, poses6D))))))))))))))))))))"

text \<open>A session is a sequence of calls on one pipeline object, each run in the state the
  one before has left.\<close>

type_synonym ('d, 'c) call_args = "image \<times> ('d \<times> real list list list) \<times> real \<times> 'c"

fun session ::
  "('l, 'd) stateful_paz \<Rightarrow> ('d, 'c) call_args list \<Rightarrow> 'l py_state
     \<Rightarrow> (error + (Box2D list \<times> Pose6D list)) list \<times> 'l py_state" where
  "session L [] s = ([], s)"
| "session L ((img, model_output, image_scale, camera_parameter) # rest) s =
     (case call_st L img model_output image_scale camera_parameter s of
        (result, s') \<Rightarrow>
          (case session L rest s' of (results, s'') \<Rightarrow> (result # results, s'')))"

text \<open>
  A library is read-only when no call of a processor changes the state. Section 5 of the
  design document describes the library so: prior boxes and variances are read-only
  configuration fixed at construction, and no component carries state across calls.
\<close>

definition read_only :: "('l, 'd) stateful_paz \<Rightarrow> bool" where
  "read_only L \<longleftrightarrow>
     (\<forall>p x s. snd (apply_processor_st L p x s) = s)
   \<and> (\<forall>names x s. snd (ToBoxes2D_st L names x s) = s)
   \<and> (\<forall>boxes scale s. snd (ScaleBoxes2D_st L boxes scale s) = s)
   \<and> (\<forall>boxes s. snd (RoundBoxes2D_st L boxes s) = s)
   \<and> (\<forall>x y s. snd (ComputeSelectedIndices_st L x y s) = s)
   \<and> (\<forall>names x r t s. snd (ToPose6D_st L names x r t s) = s)"



section \<open>Components described by the design document\<close>

subsection \<open>GeometryRescaler, as the document words it\<close>

text \<open>
  The document's rescaling rule, for comparison with \<open>denormalize_box\<close>: every coordinate
  is multiplied by the width or height of the target shape, rounded half away from zero
  and clamped into \<open>[0, dimension - 1]\<close>.
\<close>

definition round_half_away :: "real \<Rightarrow> int" where
  "round_half_away x = (if 0 \<le> x then \<lfloor>x + 1 / 2\<rfloor> else - \<lfloor>- x + 1 / 2\<rfloor>)"

definition clamp_pixel :: "nat \<Rightarrow> int \<Rightarrow> int" where
  "clamp_pixel dimension v = max 0 (min (int dimension - 1) v)"

definition rescale_spec :: "real list \<Rightarrow> nat \<times> nat \<Rightarrow> error + (int \<times> int \<times> int \<times> int)" where
  "rescale_spec box original_shape =
     (case (take 4 box, original_shape) of
        ([x_min, y_min, x_max, y_max], (height, width)) \<Rightarrow>
          Inr (clamp_pixel width (round_half_away (x_min * real width)),
               clamp_pixel height (round_half_away (y_min * real height)),
               clamp_pixel width (round_half_away (x_max * real width)),
               clamp_pixel height (round_half_away (y_max * real height)))
      | _ \<Rightarrow> Inl ValueError)"

subsection \<open>PoseAssembler\<close>

text \<open>
  Modelled from the spec: \<^verbatim>\<open>ToPose6D\<close> (the example's \<^verbatim>\<open>processors\<close> module, not in the
  embedded sources). Section 4.5 of the document: one pose per detection row, combining the
  rotation and translation vectors selected for that row; an empty \<open>box_data\<close> gives the
  empty list. Rows, rotations and translations are paired by position, as far as all three
  reach; the document leaves inputs of different lengths open. The multiplication by
  \<open>pi\<close> listed in 4.5 is done by the pipeline before this processor is called. How the
  class name is read off a row is the parameter \<open>name_of\<close>.
\<close>

definition assemble :: "('row \<Rightarrow> string) \<Rightarrow> 'row list \<Rightarrow> ndarray \<Rightarrow> ndarray \<Rightarrow> Pose6D list" where
  "assemble name_of box_data rotations translations =
     map (\<lambda>(row, r, t). \<lparr>rotation = r, translation = t, pose_class_name = name_of row\<rparr>)
       (zip box_data (zip (unstack rotations) (unstack translations)))"

subsection \<open>NMSEngine\<close>

text \<open>
  Modelled from the spec: non-maximum suppression (\<^verbatim>\<open>pr.NonMaximumSuppressionPerClass\<close>,
  \<^verbatim>\<open>paz.processors\<close>, not in the embedded sources). Section 4.3 of the document, for one
  class: the candidates are sorted by descending score, ties by lower original index; the
  best remaining candidate is emitted and every remaining candidate whose
  intersection-over-union with it exceeds the threshold is discarded, until none remains.
  The result is the kept boxes, their scores and their original indices. Boxes are corner
  boxes \<open>(x_min, y_min, x_max, y_max)\<close>; inputs of different lengths are a
  \<open>ShapeMismatchError\<close>.
\<close>

type_synonym corner_box = "real \<times> real \<times> real \<times> real"

definition area :: "corner_box \<Rightarrow> real" where
  "area b = (case b of (x_min, y_min, x_max, y_max) \<Rightarrow> (x_max - x_min) * (y_max - y_min))"

definition intersection :: "corner_box \<Rightarrow> corner_box \<Rightarrow> real" where
  "intersection a b =
     (case (a, b) of ((ax_min, ay_min, ax_max, ay_max), (bx_min, by_min, bx_max, by_max)) \<Rightarrow>
        max 0 (min ax_max bx_max - max ax_min bx_min)
          * max 0 (min ay_max by_max - max ay_min by_min))"

definition iou :: "corner_box \<Rightarrow> corner_box \<Rightarrow> real" where
  "iou a b = intersection a b / (area a + area b - intersection a b)"

type_synonym candidate = "nat \<times> corner_box \<times> real"

fun greedy :: "real \<Rightarrow> candidate list \<Rightarrow> candidate list" where
  "greedy iou_threshold [] = []"
| "greedy iou_threshold (best # remaining) =
     best # greedy iou_threshold
       (filter (\<lambda>c. \<not> iou (fst (snd best)) (fst (snd c)) > iou_threshold) remaining)"

definition suppress ::
  "corner_box list \<Rightarrow> real list \<Rightarrow> real \<Rightarrow> error + (corner_box list \<times> real list \<times> nat list)" where
  "suppress boxes scores iou_threshold =
     (if length boxes \<noteq> length scores then Inl ShapeMismatchError
      else
        let candidates = zip [0..<length boxes] (zip boxes scores);
            ordered = sort_key (\<lambda>c. - snd (snd c)) candidates;
            kept = greedy iou_threshold ordered
        in Inr (map (\<lambda>c. fst (snd c)) kept, map (\<lambda>c. snd (snd c)) kept, map fst kept))"

subsection \<open>ClassFilter\<close>

text \<open>
  Modelled from the spec: the score filter (\<^verbatim>\<open>pr.FilterBoxes\<close>, \<^verbatim>\<open>paz.processors\<close>, not in
  the embedded sources). Section 4.2 of the document: a row is retained when the largest
  of its scores reaches the threshold. A row is the four box coordinates followed by the
  scores.
\<close>

definition filter_by_score :: "real \<Rightarrow> real list list \<Rightarrow> real list list" where
  "filter_by_score threshold rows = filter (\<lambda>row. list_ex (\<lambda>s. threshold \<le> s) (drop 4 row)) rows"


section \<open>A concrete library for running the pipeline on examples\<close>

text \<open>
  To evaluate the pipeline on concrete inputs the library parameter needs a value. In this
  one the detections are rows \<open>[x_min, y_min, x_max, y_max, score]\<close> of one class that are
  already squeezed and decoded; suppression and score filtering are the components above;
  a surviving row becomes a box with the first class name; scaling multiplies and rounding
  rounds every coordinate; a survivor is selected by its position among all rows.
\<close>

definition corner_of :: "real list \<Rightarrow> corner_box" where
  "corner_of row = (case row of a # b # c # d # _ \<Rightarrow> (a, b, c, d) | _ \<Rightarrow> (0, 0, 0, 0))"

definition score_of :: "real list \<Rightarrow> real" where
  "score_of row = (case drop 4 row of s # _ \<Rightarrow> s | [] \<Rightarrow> 0)"

definition nms_rows :: "real \<Rightarrow> real list list \<Rightarrow> real list list" where
  "nms_rows nms_thresh rows =
     (case suppress (map corner_of rows) (map score_of rows) nms_thresh of
        Inr (kept_boxes, kept_scores, kept_indices) \<Rightarrow> map (\<lambda>i. rows ! i) kept_indices
      | Inl e \<Rightarrow> rows)"

fun demo_processor :: "processor \<Rightarrow> real list list \<Rightarrow> real list list" where
  "demo_processor (Squeeze axis) rows = rows"
| "demo_processor (DecodeBoxes prior_boxes variances) rows = rows"
| "demo_processor (RemoveClass class_names class_arg) rows = rows"
| "demo_processor (NonMaximumSuppressionPerClass nms_thresh) rows = nms_rows nms_thresh rows"
| "demo_processor MergeNMSBoxWithClass rows = rows"
| "demo_processor (FilterBoxes class_names score_thresh) rows = filter_by_score score_thresh rows"

definition first_name :: "string list \<Rightarrow> string" where
  "first_name class_names = (case class_names of [] \<Rightarrow> [] | n # _ \<Rightarrow> n)"

definition demo_to_boxes2D :: "string list \<Rightarrow> real list list \<Rightarrow> Box2D list" where
  "demo_to_boxes2D class_names rows =
     map (\<lambda>row. \<lparr>coordinates = take 4 row, score = score_of row,
                 class_name = first_name class_names\<rparr>) rows"

definition demo_scale_boxes2D :: "Box2D list \<Rightarrow> real \<Rightarrow> Box2D list" where
  "demo_scale_boxes2D boxes2D scale =
     map (\<lambda>b. b\<lparr>coordinates := map (\<lambda>v. v * scale) (coordinates b)\<rparr>) boxes2D"

definition demo_round_boxes2D :: "Box2D list \<Rightarrow> Box2D list" where
  "demo_round_boxes2D boxes2D =
     map (\<lambda>b. b\<lparr>coordinates := map (\<lambda>v. of_int (round_half_away v)) (coordinates b)\<rparr>) boxes2D"

fun position_of :: "'a \<Rightarrow> 'a list \<Rightarrow> int list" where
  "position_of x [] = []"
| "position_of x (y # ys) = (if x = y then [0] else map (\<lambda>i. i + 1) (position_of x ys))"

definition demo_selected_indices :: "real list list \<Rightarrow> real list list \<Rightarrow> int list" where
  "demo_selected_indices box_data_all box_data =
     concat (map (\<lambda>row. position_of row box_data_all) box_data)"

definition demo_paz :: "real list list paz" where
  "demo_paz =
     \<lparr> apply_processor = demo_processor,
       ToBoxes2D_call = demo_to_boxes2D,
       ScaleBoxes2D_call = demo_scale_boxes2D,
       RoundBoxes2D_call = demo_round_boxes2D,
       ComputeSelectedIndices_call = demo_selected_indices,
       ToPose6D_call = (\<lambda>class_names. assemble (\<lambda>row. first_name class_names)) \<rparr>"

text \<open>
  The pipeline object of the example script, \<^verbatim>\<open>score_thresh=0.5\<close>, \<^verbatim>\<open>nms_thresh=0.45\<close>,
  default variances and pose dimensions, \<^verbatim>\<open>class_arg=0\<close>; an image of 480 rows and 640
  columns; and a store of two box objects.
\<close>

definition demo_self :: EfficientPosePostprocess where
  "demo_self = init [] [''driller''] 0.5 0.45 [0.1, 0.1, 0.2, 0.2] (Some 0) 3"

definition demo_image :: image where
  "demo_image = \<lparr>shape = [480, 640, 3]\<rparr>"

definition demo_store :: store where
  "demo_store r =
     (if r = 0 then \<lparr>coordinates = [0.1, 0.1, 0.3, 0.3], score = 0.9, class_name = ''driller''\<rparr>
      else \<lparr>coordinates = [0.5, 0.5, 1, 1], score = 0.8, class_name = ''driller''\<rparr>)"

text \<open>
  The other order of rescaling, as the document words it: the inverse image scale is applied
  to the normalised boxes, which are then denormalised and rounded.
\<close>

definition scale_before_denormalize ::
  "'d paz \<Rightarrow> image \<Rightarrow> Box2D list \<Rightarrow> real \<Rightarrow> error + Box2D list" where
  "scale_before_denormalize P img boxes2D image_scale =
     and_then (py_div 1 image_scale) (\<lambda>inverse_scale.
     and_then (DenormalizeBoxes2D_call img (ScaleBoxes2D_call P boxes2D inverse_scale))
       (\<lambda>boxes2D. Inr (RoundBoxes2D_call P boxes2D)))"

text \<open>
  A library that differs from the one above in the pose processor only: it reports that it
  was called by returning one fixed pose whatever its input.
\<close>

definition reporting_paz :: "real list list paz" where
  "reporting_paz =
     demo_paz\<lparr>ToPose6D_call :=
       (\<lambda>class_names box_data rotations translations.
          [\<lparr>rotation = Arr [], translation = Arr [], pose_class_name = ''called''\<rparr>])\<rparr>"

text \<open>
  Two libraries with state for the examples: one whose processors are the functions of a
  library without state, and one that differs from the example library in the pose processor,
  which counts its calls in the library state and returns as many poses as there were
  earlier calls.
\<close>

definition stateless :: "'d paz \<Rightarrow> ('l, 'd) stateful_paz" where
  "stateless P =
     \<lparr> apply_processor_st = (\<lambda>p x s. (apply_processor P p x, s)),
       ToBoxes2D_st = (\<lambda>names x s. (ToBoxes2D_call P names x, s)),
       ScaleBoxes2D_st = (\<lambda>boxes scale s. (ScaleBoxes2D_call P boxes scale, s)),
       RoundBoxes2D_st = (\<lambda>boxes s. (RoundBoxes2D_call P boxes, s)),
       ComputeSelectedIndices_st = (\<lambda>x y s. (ComputeSelectedIndices_call P x y, s)),
       ToPose6D_st = (\<lambda>names x r t s. (ToPose6D_call P names x r t, s)) \<rparr>"

definition counting_paz :: "(nat, real list list) stateful_paz" where
  "counting_paz =
     (stateless demo_paz)\<lparr>ToPose6D_st :=
       (\<lambda>names x r t s.
          (replicate (library_state s)
             \<lparr>rotation = Arr [], translation = Arr [], pose_class_name = ''earlier call''\<rparr>,
           s\<lparr>library_state := Suc (library_state s)\<rparr>))\<rparr>"

definition demo_state :: "nat py_state" where
  "demo_state = \<lparr>self_object = demo_self, library_state = 0\<rparr>"


section \<open>Denormalisation of boxes\<close>

lemma denormalize_each_shape:
  "denormalize_each shape1 boxes2D = denormalize_each shape2 boxes2D"
  by (induction boxes2D) (simp_all add: denormalize_box_def)

lemma py_int_truncates: "real_of_int (py_int v) = sgn v * real_of_int \<lfloor>\<bar>v\<bar>\<rfloor>"
  by (simp add: py_int_def sgn_if)

text \<open>
  C9: the result of \<open>denormalize_box\<close> does not depend on its \<open>image_shape\<close> argument: for
  every box and any two image shapes the results are equal, because the conversion always
  uses the width 640 and the height \<open>512 * 1.25\<close>. The same holds for the processor
  \<open>DenormalizeBoxes2D\<close>, which passes the shape of its image: two images give the same boxes.
\<close>

theorem denormalize_box_ignores_image_shape:
  "denormalize_box box shape1 = denormalize_box box shape2
   \<and> denormalize_box (x_min # y_min # x_max # y_max # rest) shape1 =
       Inr (py_int (x_min * 640), py_int (y_min * (512 * 1.25)),
            py_int (x_max * 640), py_int (y_max * (512 * 1.25)))
   \<and> DenormalizeBoxes2D_call image1 boxes2D = DenormalizeBoxes2D_call image2 boxes2D"
  using denormalize_each_shape
  by (simp add: denormalize_box_def DenormalizeBoxes2D_call_def)

text \<open>
  C1, as stated, fails. On the document's own scenario, the box \<open>[0.1, 0.1, 0.3, 0.3]\<close> and
  an image of width 640 and height 480, the document's rule gives \<open>(64, 48, 192, 144)\<close> and
  \<open>denormalize_box\<close> gives \<open>(64, 64, 192, 192)\<close>. On a 640 by 640 image, where the shape is
  not the cause, the coordinate \<open>1 / 1280\<close> is truncated to 0 where rounding half away from
  zero gives 1, and the coordinate 1 becomes 640 where clamping gives 639.
\<close>

theorem denormalize_box_scenario_counterexample:
  "rescale_spec [0.1, 0.1, 0.3, 0.3] (480, 640) = Inr (64, 48, 192, 144)
   \<and> denormalize_box [0.1, 0.1, 0.3, 0.3] [480, 640] = Inr (64, 64, 192, 192)
   \<and> rescale_spec [0.1, 0.1, 1 / 1280, 1] (640, 640) = Inr (64, 64, 1, 639)
   \<and> denormalize_box [0.1, 0.1, 1 / 1280, 1] [640, 640] = Inr (64, 64, 0, 640)"
  by (simp add: rescale_spec_def denormalize_box_def py_int_def round_half_away_def
      clamp_pixel_def)

text \<open>
  C1, amended: for an image of height 640 and width 640, \<open>denormalize_box\<close> converts every
  coordinate of a corner box by \<open>x_pixel = int(x_norm * width)\<close> and
  \<open>y_pixel = int(y_norm * height)\<close>, where \<open>int\<close> truncates toward zero (the sign of the
  value times the floor of its absolute value), and applies no clamping.
\<close>

theorem denormalize_box_truncates:
  assumes "image_shape = [height, width]" and "height = 640" and "width = 640"
  shows "denormalize_box (x_min # y_min # x_max # y_max # rest) image_shape =
           Inr (py_int (x_min * real width), py_int (y_min * real height),
                py_int (x_max * real width), py_int (y_max * real height))
         \<and> real_of_int (py_int v) = sgn v * real_of_int \<lfloor>\<bar>v\<bar>\<rfloor>"
  using assms by (simp add: denormalize_box_def py_int_truncates)

theorem denormalize_box_truncates_witness:
  "denormalize_box [0.1, 0.1, 0.3, 0.3] [640, 640] = Inr (64, 64, 192, 192)
   \<and> real_of_int (py_int (- 3 / 2)) = - 1"
  using denormalize_box_truncates [of "[640, 640]" 640 640 "0.1" "0.1" "0.3" "0.3" "[]" "- 3 / 2"]
  by (simp add: py_int_def)

section \<open>The processor \<open>DenormalizeBoxes2D\<close>\<close>

lemma self_update: "\<exists>c. (b::Box2D) = b\<lparr>coordinates := c\<rparr>"
  by (rule exI[of _ "coordinates b"]) simp

lemma denormalize_loop_frame:
  "denormalize_loop shp h refs = (h', raised) \<Longrightarrow>
     (\<forall>r. \<exists>c. h' r = (h r)\<lparr>coordinates := c\<rparr>) \<and> (\<forall>r. r \<notin> set refs \<longrightarrow> h' r = h r)"
proof (induction refs arbitrary: h)
  case Nil
  then show ?case by (auto intro: self_update)
next
  case (Cons a refs)
  show ?case
  proof (cases "denormalize_box (coordinates (h a)) shp")
    case (Inl e)
    with Cons.prems have "h' = h" by simp
    then show ?thesis by (auto intro: self_update)
  next
    case (Inr t)
    let ?h = "h(a := (h a)\<lparr>coordinates := as_coordinates t\<rparr>)"
    from Inr Cons.prems have "denormalize_loop shp ?h refs = (h', raised)" by simp
    from Cons.IH[OF this]
    have 1: "\<forall>r. \<exists>c. h' r = (?h r)\<lparr>coordinates := c\<rparr>"
      and 2: "\<forall>r. r \<notin> set refs \<longrightarrow> h' r = ?h r"
      by auto
    have "\<exists>c. h' r = (h r)\<lparr>coordinates := c\<rparr>" for r
    proof -
      from 1 obtain c where "h' r = (?h r)\<lparr>coordinates := c\<rparr>" by blast
      then show ?thesis by (cases "r = a") auto
    qed
    moreover have "r \<notin> set (a # refs) \<Longrightarrow> h' r = h r" for r using 2 by auto
    ultimately show ?thesis by blast
  qed
qed

text \<open>
  On a list of distinct objects the loop over the store computes what the loop over values
  computes: the pipeline's use of the value version is justified.
\<close>

lemma denormalize_loop_values:
  "distinct refs \<Longrightarrow> denormalize_loop shp h refs = (h', None) \<Longrightarrow>
     denormalize_each shp (map h refs) = Inr (map h' refs)"
proof (induction refs arbitrary: h)
  case Nil
  then show ?case by simp
next
  case (Cons a refs)
  from Cons.prems(2) obtain t where t: "denormalize_box (coordinates (h a)) shp = Inr t"
    by (cases "denormalize_box (coordinates (h a)) shp") auto
  let ?h = "h(a := (h a)\<lparr>coordinates := as_coordinates t\<rparr>)"
  from t Cons.prems have run: "denormalize_loop shp ?h refs = (h', None)" by simp
  from Cons.prems(1) have d: "distinct refs" and a: "a \<notin> set refs" by auto
  from Cons.IH[OF d run] have "denormalize_each shp (map ?h refs) = Inr (map h' refs)" .
  moreover from a have "map ?h refs = map h refs" by auto
  moreover from denormalize_loop_frame[OF run] a have "h' a = ?h a" by blast
  ultimately show ?case using t by (simp add: and_then_def)
qed

lemma denormalize_loop_raises:
  "distinct refs \<Longrightarrow> denormalize_loop shp h refs = (h', Some e) \<Longrightarrow>
     denormalize_each shp (map h refs) = Inl e"
proof (induction refs arbitrary: h)
  case Nil
  then show ?case by simp
next
  case (Cons a refs)
  show ?case
  proof (cases "denormalize_box (coordinates (h a)) shp")
    case (Inl e')
    with Cons.prems show ?thesis by (simp add: and_then_def)
  next
    case (Inr t)
    let ?h = "h(a := (h a)\<lparr>coordinates := as_coordinates t\<rparr>)"
    from Inr Cons.prems have run: "denormalize_loop shp ?h refs = (h', Some e)" by simp
    from Cons.prems(1) have d: "distinct refs" and a: "a \<notin> set refs" by auto
    from Cons.IH[OF d run] have "denormalize_each shp (map ?h refs) = Inl e" .
    moreover from a have "map ?h refs = map h refs" by auto
    ultimately show ?thesis using Inr by (simp add: and_then_def)
  qed
qed

text \<open>
  C10: when \<open>DenormalizeBoxes2D.call\<close> returns, it returns the list of boxes it was given
  (the same objects in the same order); every object of the store differs from its former
  self in the \<open>coordinates\<close> field at most, so \<open>score\<close> and \<open>class_name\<close> are unchanged;
  objects that are not in the list are untouched; and for distinct objects the new
  coordinates are the denormalised ones.
\<close>

theorem DenormalizeBoxes2D_updates_coordinates_only:
  assumes "DenormalizeBoxes2D_call_store h img boxes2D = (h', Inr returned)"
  shows "returned = boxes2D
       \<and> (\<forall>r. \<exists>c. h' r = (h r)\<lparr>coordinates := c\<rparr>)
       \<and> (\<forall>r. score (h' r) = score (h r) \<and> class_name (h' r) = class_name (h r))
       \<and> (\<forall>r. r \<notin> set boxes2D \<longrightarrow> h' r = h r)
       \<and> (distinct boxes2D \<longrightarrow>
            DenormalizeBoxes2D_call img (map h boxes2D) = Inr (map h' returned))"
proof -
  obtain raised where run: "denormalize_loop (take 2 (shape img)) h boxes2D = (h', raised)"
    using assms by (auto simp: DenormalizeBoxes2D_call_store_def split: prod.splits)
  with assms have ret: "returned = boxes2D" and none: "raised = None"
    by (auto simp: DenormalizeBoxes2D_call_store_def split: option.splits)
  note fr = denormalize_loop_frame[OF run]
  have "score (h' r) = score (h r) \<and> class_name (h' r) = class_name (h r)" for r
  proof -
    from fr obtain c where "h' r = (h r)\<lparr>coordinates := c\<rparr>" by blast
    then show ?thesis by simp
  qed
  moreover have "distinct boxes2D \<Longrightarrow>
      DenormalizeBoxes2D_call img (map h boxes2D) = Inr (map h' returned)"
    using denormalize_loop_values run none ret by (simp add: DenormalizeBoxes2D_call_def)
  ultimately show ?thesis using ret fr by blast
qed

theorem DenormalizeBoxes2D_updates_coordinates_only_witness:
  "DenormalizeBoxes2D_call_store demo_store demo_image [0, 1] =
      (demo_store
         (0 := \<lparr>coordinates = [64, 64, 192, 192], score = 0.9, class_name = ''driller''\<rparr>,
          1 := \<lparr>coordinates = [320, 320, 640, 640], score = 0.8, class_name = ''driller''\<rparr>),
       Inr [0, 1])
   \<and> DenormalizeBoxes2D_call demo_image [demo_store 0, demo_store 1] =
       Inr [\<lparr>coordinates = [64, 64, 192, 192], score = 0.9, class_name = ''driller''\<rparr>,
            \<lparr>coordinates = [320, 320, 640, 640], score = 0.8, class_name = ''driller''\<rparr>]"
proof -
  let ?h' = "demo_store
         (0 := \<lparr>coordinates = [64, 64, 192, 192], score = 0.9, class_name = ''driller''\<rparr>,
          1 := \<lparr>coordinates = [320, 320, 640, 640], score = 0.8, class_name = ''driller''\<rparr>)"
  have run: "DenormalizeBoxes2D_call_store demo_store demo_image [0, 1] = (?h', Inr [0, 1])"
    by (simp add: DenormalizeBoxes2D_call_store_def demo_store_def demo_image_def
        denormalize_box_def py_int_def as_coordinates_def)
  from DenormalizeBoxes2D_updates_coordinates_only [OF run] run show ?thesis
    by simp
qed


section \<open>Non-maximum suppression\<close>

lemma greedy_subset: "set (greedy t cs) \<subseteq> set cs"
  by (induction t cs rule: greedy.induct) auto

lemma greedy_sorted: "sorted (map f cs) \<Longrightarrow> sorted (map f (greedy t cs))"
proof (induction t cs rule: greedy.induct)
  case (1 t)
  then show ?case by simp
next
  case (2 t best remaining)
  let ?rest = "filter (\<lambda>c. \<not> iou (fst (snd best)) (fst (snd c)) > t) remaining"
  from "2.prems" have "sorted (map f remaining)" and le: "\<forall>c\<in>set remaining. f best \<le> f c"
    by auto
  then have "sorted (map f ?rest)" by (simp add: sorted_filter)
  then have "sorted (map f (greedy t ?rest))" by (rule "2.IH")
  moreover have "set (greedy t ?rest) \<subseteq> set remaining"
    using greedy_subset[of t ?rest] by auto
  ultimately show ?case using le by auto
qed

lemma greedy_separated:
  "sorted_wrt (\<lambda>a b. \<not> iou (fst (snd a)) (fst (snd b)) > t) (greedy t cs)"
proof (induction t cs rule: greedy.induct)
  case (1 t)
  then show ?case by simp
next
  case (2 t best remaining)
  let ?rest = "filter (\<lambda>c. \<not> iou (fst (snd best)) (fst (snd c)) > t) remaining"
  have "set (greedy t ?rest) \<subseteq> set ?rest" by (rule greedy_subset)
  then have "\<forall>c\<in>set (greedy t ?rest). \<not> iou (fst (snd best)) (fst (snd c)) > t"
    by auto
  moreover have "sorted_wrt (\<lambda>a b. \<not> iou (fst (snd a)) (fst (snd b)) > t) (greedy t ?rest)"
    by (rule "2.IH")
  ultimately show ?case
    unfolding greedy.simps sorted_wrt.simps by (rule conjI)
qed

lemma greedy_fixpoint:
  "sorted_wrt (\<lambda>a b. \<not> iou (fst (snd a)) (fst (snd b)) > t) cs \<Longrightarrow> greedy t cs = cs"
proof (induction cs)
  case Nil
  then show ?case by simp
next
  case (Cons c cs)
  then have "filter (\<lambda>d. \<not> iou (fst (snd c)) (fst (snd d)) > t) cs = cs"
    by (auto intro: filter_True)
  with Cons show ?case by simp
qed

lemma map_box_zip:
  "length bs = length ss \<Longrightarrow> map (\<lambda>c. fst (snd c)) (zip [0..<length bs] (zip bs ss)) = bs"
  by (simp add: map_snd_zip map_fst_zip flip: map_map[unfolded comp_def, of fst snd])


lemma map_score_zip:
  "length bs = length ss \<Longrightarrow> map (\<lambda>c. snd (snd c)) (zip [0..<length bs] (zip bs ss)) = ss"
  by (simp add: map_snd_zip flip: map_map[unfolded comp_def, of snd snd])

lemma map_index_zip:
  "length bs = length ss \<Longrightarrow> map fst (zip [0..<length bs] (zip bs ss)) = [0..<length bs]"
  by (simp add: map_fst_zip)

text \<open>
  C7: non-maximum suppression is idempotent. For every list of boxes and scores and every
  threshold, when a run of \<open>suppress\<close> returns kept boxes and kept scores, a second run on
  these with the same threshold returns exactly the same boxes and scores, in the same
  order; the indices it reports are the positions \<open>0, 1, ...\<close> in its input.
\<close>

theorem suppress_idempotent:
  assumes "suppress boxes scores iou_threshold = Inr (kept_boxes, kept_scores, kept_indices)"
  shows "suppress kept_boxes kept_scores iou_threshold =
           Inr (kept_boxes, kept_scores, [0..<length kept_boxes])"
proof -
  let ?box = "\<lambda>c::candidate. fst (snd c)" and ?score = "\<lambda>c::candidate. snd (snd c)"
  let ?key = "\<lambda>c::candidate. - snd (snd c)"
  define kept where
    "kept = greedy iou_threshold (sort_key ?key (zip [0..<length boxes] (zip boxes scores)))"
  from assms have kb: "kept_boxes = map ?box kept" and ks: "kept_scores = map ?score kept"
    by (auto simp: suppress_def kept_def Let_def split: if_splits)
  then have len: "length kept_boxes = length kept_scores" by simp
  let ?again = "zip [0..<length kept_boxes] (zip kept_boxes kept_scores)"
  have "sorted (map ?key kept)"
    unfolding kept_def by (rule greedy_sorted) simp
  then have "sorted (map uminus kept_scores)"
    by (simp add: ks comp_def)
  moreover have "map ?key ?again = map uminus kept_scores"
    using map_score_zip[OF len] by (simp flip: map_map[unfolded comp_def, of uminus ?score])
  ultimately have "sorted (map ?key ?again)" by simp
  then have ordered: "sort_key ?key ?again = ?again" by (rule sort_key_id_if_sorted)
  have "sorted_wrt (\<lambda>a b. \<not> iou (?box a) (?box b) > iou_threshold) kept"
    unfolding kept_def by (rule greedy_separated)
  then have "sorted_wrt (\<lambda>a b. \<not> iou a b > iou_threshold) kept_boxes"
    by (simp add: kb sorted_wrt_map)
  then have "sorted_wrt (\<lambda>a b. \<not> iou a b > iou_threshold) (map ?box ?again)"
    using map_box_zip[OF len] by simp
  then have "sorted_wrt (\<lambda>a b. \<not> iou (?box a) (?box b) > iou_threshold) ?again"
    by (simp add: sorted_wrt_map)
  then have "greedy iou_threshold ?again = ?again" by (rule greedy_fixpoint)
  with ordered len map_box_zip[OF len] map_score_zip[OF len] map_index_zip[OF len]
  show ?thesis by (simp add: suppress_def)
qed

text \<open>
  The document's scenario, extended by a third box: two boxes of intersection-over-union
  0.6 with scores 0.8 and 0.9, and a box apart from both; with threshold 0.45 the box of
  score 0.9 and the third box are kept, and suppressing them again changes nothing.
\<close>

theorem suppress_idempotent_witness:
  "suppress [(0, 1 / 4, 1, 5 / 4), (0, 0, 1, 1), (2, 2, 3, 3)] [0.8, 0.9, 0.8] 0.45 =
     Inr ([(0, 0, 1, 1), (2, 2, 3, 3)], [0.9, 0.8], [1, 2])
   \<and> iou (0, 1 / 4, 1, 5 / 4) (0, 0, 1, 1) = 0.6
   \<and> suppress [(0, 0, 1, 1), (2, 2, 3, 3)] [0.9, 0.8] 0.45 =
     Inr ([(0, 0, 1, 1), (2, 2, 3, 3)], [0.9, 0.8], [0, 1])"
proof -
  have first: "suppress [(0, 1 / 4, 1, 5 / 4), (0, 0, 1, 1), (2, 2, 3, 3)] [0.8, 0.9, 0.8] 0.45 =
      Inr ([(0, 0, 1, 1), (2, 2, 3, 3)], [0.9, 0.8], [1, 2])"
    by (simp add: suppress_def iou_def area_def intersection_def upt_rec)
  have "iou (0, 1 / 4, 1, 5 / 4) (0, 0, 1, 1) = 0.6"
    by (simp add: iou_def area_def intersection_def)
  with first suppress_idempotent [OF first] show ?thesis
    by (simp add: upt_rec)
qed


section \<open>The pipeline\<close>

subsection \<open>Auxiliary facts\<close>

lemma call_boxes2D:
  assumes "call P self img (detections, transformations) image_scale cam = Inr (boxes2D, poses6D)"
  shows "image_scale \<noteq> 0 \<and>
    (\<exists>den. DenormalizeBoxes2D_call img
              (ToBoxes2D_call P (to_boxes2D self)
                (SequentialProcessor P (postprocess_2 self)
                  (SequentialProcessor P (postprocess_1 self) detections))) = Inr den
        \<and> boxes2D = RoundBoxes2D_call P (ScaleBoxes2D_call P den (1 / image_scale)))"
  using assms
  by (auto simp: call_def Let_def and_then_def py_div_def split: sum.splits if_splits)

lemma stage_inputs_append:
  "stage_inputs P (ps @ qs) x = stage_inputs P ps x @ stage_inputs P qs (SequentialProcessor P ps x)"
  by (induction ps arbitrary: x) (simp_all add: SequentialProcessor_def)

lemma denormalize_each_pixels:
  "denormalize_each shp boxes2D = Inr den \<Longrightarrow> \<forall>b\<in>set den. \<exists>t. coordinates b = as_coordinates t"
proof (induction boxes2D arbitrary: den)
  case Nil
  then show ?case by simp
next
  case (Cons b bs)
  from Cons.prems obtain t rest where "denormalize_each shp bs = Inr rest"
    and den: "den = b\<lparr>coordinates := as_coordinates t\<rparr> # rest"
    by (auto simp: and_then_def split: sum.splits)
  with Cons.IH have "\<forall>b\<in>set rest. \<exists>t. coordinates b = as_coordinates t" by blast
  moreover have "\<exists>t'. coordinates (b\<lparr>coordinates := as_coordinates t\<rparr>) = as_coordinates t'"
    by (rule exI[of _ t]) simp
  ultimately show ?case unfolding den by simp
qed

lemma denormalize_each_length:
  "denormalize_each shp boxes2D = Inr den \<Longrightarrow> length den = length boxes2D"
  by (induction boxes2D arbitrary: den) (auto simp: and_then_def split: sum.splits)

lemma index_rows_nth:
  "index_rows xs is = Inr rows \<Longrightarrow>
     length rows = length is \<and> (\<forall>i<length is. py_index xs (is ! i) = Inr (rows ! i))"
proof (induction "is" arbitrary: rows)
  case Nil
  then show ?case by simp
next
  case (Cons j js)
  from Cons.prems obtain r rs where r: "py_index xs j = Inr r" and rs: "index_rows xs js = Inr rs"
    and rows: "rows = r # rs"
    by (auto simp: and_then_def split: sum.splits)
  from Cons.IH[OF rs] have len: "length rs = length js"
    and nth: "\<forall>i<length js. py_index xs (js ! i) = Inr (rs ! i)" by auto
  have "py_index xs ((j # js) ! i) = Inr (rows ! i)" if "i < length (j # js)" for i
    using that r nth rows by (cases i) auto
  with len rows show ?case by simp
qed

subsection \<open>The example library, evaluated\<close>

lemma demo_self_fields:
  "num_pose_dims demo_self = 3" "to_boxes2D demo_self = [''driller'']"
  "transform_rotations demo_self = pi" "to_pose_6D demo_self = [''driller'']"
  by (simp_all add: demo_self_def init_def)

lemma demo_self_stages:
  "postprocess_1 demo_self = [Squeeze None, DecodeBoxes [] [0.1, 0.1, 0.2, 0.2], RemoveClass [''driller''] (Some 0)]"
  "postprocess_2 demo_self = [NonMaximumSuppressionPerClass 0.45, MergeNMSBoxWithClass, FilterBoxes [''driller''] 0.5]"
  by (simp_all add: demo_self_def init_def)

lemma demo_paz_fields:
  "apply_processor demo_paz = demo_processor"
  "ToBoxes2D_call demo_paz = demo_to_boxes2D"
  "ScaleBoxes2D_call demo_paz = demo_scale_boxes2D"
  "RoundBoxes2D_call demo_paz = demo_round_boxes2D"
  "ComputeSelectedIndices_call demo_paz = demo_selected_indices"
  "ToPose6D_call demo_paz = (\<lambda>class_names. assemble (\<lambda>row. first_name class_names))"
  by (simp_all add: demo_paz_def)

lemma demo_nms:
  "nms_rows 0.45 [[0.1, 0.1, 0.3, 0.3, 0.9], [0.5, 0.5, 0.9, 0.9, 0.4]] =
     [[0.1, 0.1, 0.3, 0.3, 0.9], [0.5, 0.5, 0.9, 0.9, 0.4]]"
  by (simp add: nms_rows_def suppress_def iou_def area_def intersection_def corner_of_def
      score_of_def upt_rec)

lemma demo_filter:
  "filter_by_score 0.5 [[0.1, 0.1, 0.3, 0.3, 0.9], [0.5, 0.5, 0.9, 0.9, 0.4]] =
     [[0.1, 0.1, 0.3, 0.3, 0.9]]"
  by (simp add: filter_by_score_def)

lemma demo_stages:
  "stage_inputs demo_paz (postprocess_1 demo_self @ postprocess_2 demo_self)
     [[0.1, 0.1, 0.3, 0.3, 0.9], [0.5, 0.5, 0.9, 0.9, 0.4]] =
   [(Squeeze None, [[0.1, 0.1, 0.3, 0.3, 0.9], [0.5, 0.5, 0.9, 0.9, 0.4]]),
    (DecodeBoxes [] [0.1, 0.1, 0.2, 0.2], [[0.1, 0.1, 0.3, 0.3, 0.9], [0.5, 0.5, 0.9, 0.9, 0.4]]),
    (RemoveClass [''driller''] (Some 0), [[0.1, 0.1, 0.3, 0.3, 0.9], [0.5, 0.5, 0.9, 0.9, 0.4]]),
    (NonMaximumSuppressionPerClass 0.45, [[0.1, 0.1, 0.3, 0.3, 0.9], [0.5, 0.5, 0.9, 0.9, 0.4]]),
    (MergeNMSBoxWithClass, [[0.1, 0.1, 0.3, 0.3, 0.9], [0.5, 0.5, 0.9, 0.9, 0.4]]),
    (FilterBoxes [''driller''] 0.5, [[0.1, 0.1, 0.3, 0.3, 0.9], [0.5, 0.5, 0.9, 0.9, 0.4]])]"
  using demo_nms by (simp add: demo_self_stages demo_paz_fields)

lemma demo_pp1: "SequentialProcessor demo_paz (postprocess_1 demo_self) rows = rows"
  by (simp add: SequentialProcessor_def demo_self_stages demo_paz_fields)

lemma demo_pp2:
  "SequentialProcessor demo_paz (postprocess_2 demo_self)
     [[0.1, 0.1, 0.3, 0.3, 0.9], [0.5, 0.5, 0.9, 0.9, 0.4]] = [[0.1, 0.1, 0.3, 0.3, 0.9]]"
  using demo_nms demo_filter
  by (simp add: SequentialProcessor_def demo_self_stages demo_paz_fields)

lemma demo_denormalize:
  "DenormalizeBoxes2D_call demo_image
     [\<lparr>coordinates = [0.1, 0.1, 0.3, 0.3], score = 0.9, class_name = ''driller''\<rparr>] =
   Inr [\<lparr>coordinates = [64, 64, 192, 192], score = 0.9, class_name = ''driller''\<rparr>]"
  by (simp add: DenormalizeBoxes2D_call_def denormalize_box_def and_then_def py_int_def
      as_coordinates_def)

lemma demo_call:
  "call demo_paz demo_self demo_image
     ([[0.1, 0.1, 0.3, 0.3, 0.9], [0.5, 0.5, 0.9, 0.9, 0.4]],
      [[[0.5, 0, - 0.5, 1, 2, 3], [0.25, 0, 0, 4, 5, 6]]]) 1 () =
   Inr ([\<lparr>coordinates = [64, 64, 192, 192], score = 0.9, class_name = ''driller''\<rparr>],
        [\<lparr>rotation = Arr [Num (0.5 * pi), Num 0, Num (- 0.5 * pi)],
          translation = Arr [Num 1, Num 2, Num 3],
          pose_class_name = ''driller''\<rparr>])"
  using demo_pp2 demo_denormalize
  by (simp add: call_def Let_def demo_pp1 demo_self_fields demo_paz_fields
      demo_to_boxes2D_def score_of_def first_name_def and_then_def py_div_def
      demo_scale_boxes2D_def demo_round_boxes2D_def round_half_away_def
      demo_selected_indices_def slice_upto_def slice_from_def squeeze_axis0_def py_index_def
      Scale_call_def assemble_def of1_def of2_def)

subsection \<open>Order of the stages\<close>

text \<open>
  C2, as stated, fails: the score filter does not run before non-maximum suppression. In
  the example the second row has score 0.4, below the threshold 0.5; the suppression
  processor is called with both rows, and the score filter, which is the last processor of
  the second sequence, removes that row afterwards.
\<close>

theorem score_filter_before_suppression_counterexample:
  "stage_inputs demo_paz (postprocess_1 demo_self @ postprocess_2 demo_self)
     [[0.1, 0.1, 0.3, 0.3, 0.9], [0.5, 0.5, 0.9, 0.9, 0.4]] =
   [(Squeeze None, [[0.1, 0.1, 0.3, 0.3, 0.9], [0.5, 0.5, 0.9, 0.9, 0.4]]),
    (DecodeBoxes [] [0.1, 0.1, 0.2, 0.2], [[0.1, 0.1, 0.3, 0.3, 0.9], [0.5, 0.5, 0.9, 0.9, 0.4]]),
    (RemoveClass [''driller''] (Some 0), [[0.1, 0.1, 0.3, 0.3, 0.9], [0.5, 0.5, 0.9, 0.9, 0.4]]),
    (NonMaximumSuppressionPerClass 0.45, [[0.1, 0.1, 0.3, 0.3, 0.9], [0.5, 0.5, 0.9, 0.9, 0.4]]),
    (MergeNMSBoxWithClass, [[0.1, 0.1, 0.3, 0.3, 0.9], [0.5, 0.5, 0.9, 0.9, 0.4]]),
    (FilterBoxes [''driller''] 0.5, [[0.1, 0.1, 0.3, 0.3, 0.9], [0.5, 0.5, 0.9, 0.9, 0.4]])]
   \<and> apply_processor demo_paz (FilterBoxes [''driller''] 0.5)
       [[0.1, 0.1, 0.3, 0.3, 0.9], [0.5, 0.5, 0.9, 0.9, 0.4]] = [[0.1, 0.1, 0.3, 0.3, 0.9]]"
  using demo_stages demo_filter by (simp add: demo_paz_fields)

text \<open>
  C2, amended: the pipeline applies its stages in the fixed order squeeze, decode, removal
  of the ignored class, non-maximum suppression per class, merge, score filter, and then,
  on the filtered data, conversion to boxes, denormalisation, scaling by the inverse image
  scale and rounding. Each processor is called with the output of the one before; the score
  filter is called with the merged output of the suppression, so detections below the
  score threshold are removed after the suppression has run.
\<close>

theorem pipeline_filters_after_suppression:
  assumes "call P (init prior_boxes class_names score_thresh nms_thresh variances class_arg pose_dims)
             img (detections, transformations) image_scale cam = Inr (boxes2D, poses6D)"
  shows "\<exists>squeezed decoded class_removed suppressed merged filtered denormalized.
      squeezed = apply_processor P (Squeeze None) detections
    \<and> decoded = apply_processor P (DecodeBoxes prior_boxes variances) squeezed
    \<and> class_removed = apply_processor P (RemoveClass class_names class_arg) decoded
    \<and> suppressed = apply_processor P (NonMaximumSuppressionPerClass nms_thresh) class_removed
    \<and> merged = apply_processor P MergeNMSBoxWithClass suppressed
    \<and> filtered = apply_processor P (FilterBoxes class_names score_thresh) merged
    \<and> stage_inputs P
          (postprocess_1 (init prior_boxes class_names score_thresh nms_thresh variances
             class_arg pose_dims)
           @ postprocess_2 (init prior_boxes class_names score_thresh nms_thresh variances
             class_arg pose_dims)) detections =
        [(Squeeze None, detections),
         (DecodeBoxes prior_boxes variances, squeezed),
         (RemoveClass class_names class_arg, decoded),
         (NonMaximumSuppressionPerClass nms_thresh, class_removed),
         (MergeNMSBoxWithClass, suppressed),
         (FilterBoxes class_names score_thresh, merged)]
    \<and> DenormalizeBoxes2D_call img (ToBoxes2D_call P class_names filtered) = Inr denormalized
    \<and> boxes2D = RoundBoxes2D_call P (ScaleBoxes2D_call P denormalized (1 / image_scale))"
proof -
  let ?self = "init prior_boxes class_names score_thresh nms_thresh variances class_arg pose_dims"
  from call_boxes2D[OF assms] obtain den where
    den: "DenormalizeBoxes2D_call img
            (ToBoxes2D_call P (to_boxes2D ?self)
              (SequentialProcessor P (postprocess_2 ?self)
                (SequentialProcessor P (postprocess_1 ?self) detections))) = Inr den"
    and boxes: "boxes2D = RoundBoxes2D_call P (ScaleBoxes2D_call P den (1 / image_scale))"
    by blast
  from den have "DenormalizeBoxes2D_call img
      (ToBoxes2D_call P class_names
        (apply_processor P (FilterBoxes class_names score_thresh)
          (apply_processor P MergeNMSBoxWithClass
            (apply_processor P (NonMaximumSuppressionPerClass nms_thresh)
              (apply_processor P (RemoveClass class_names class_arg)
                (apply_processor P (DecodeBoxes prior_boxes variances)
                  (apply_processor P (Squeeze None) detections))))))) = Inr den"
    by (simp add: init_def SequentialProcessor_def)
  with boxes show ?thesis
    by (simp add: init_def)
qed

theorem pipeline_filters_after_suppression_witness:
  "call demo_paz demo_self demo_image
     ([[0.1, 0.1, 0.3, 0.3, 0.9], [0.5, 0.5, 0.9, 0.9, 0.4]],
      [[[0.5, 0, - 0.5, 1, 2, 3], [0.25, 0, 0, 4, 5, 6]]]) 1 () =
   Inr ([\<lparr>coordinates = [64, 64, 192, 192], score = 0.9, class_name = ''driller''\<rparr>],
        [\<lparr>rotation = Arr [Num (0.5 * pi), Num 0, Num (- 0.5 * pi)],
          translation = Arr [Num 1, Num 2, Num 3],
          pose_class_name = ''driller''\<rparr>])
   \<and> [\<lparr>coordinates = [64, 64, 192, 192], score = 0.9, class_name = ''driller''\<rparr>] =
       RoundBoxes2D_call demo_paz (ScaleBoxes2D_call demo_paz
         [\<lparr>coordinates = [64, 64, 192, 192], score = 0.9, class_name = ''driller''\<rparr>] (1 / 1))"
proof -
  note run = demo_call[unfolded demo_self_def]
  from pipeline_filters_after_suppression[OF run]
  obtain denormalized where
    den: "DenormalizeBoxes2D_call demo_image (ToBoxes2D_call demo_paz [''driller'']
        (apply_processor demo_paz (FilterBoxes [''driller''] 0.5)
          (apply_processor demo_paz MergeNMSBoxWithClass
            (apply_processor demo_paz (NonMaximumSuppressionPerClass 0.45)
              (apply_processor demo_paz (RemoveClass [''driller''] (Some 0))
                (apply_processor demo_paz (DecodeBoxes [] [0.1, 0.1, 0.2, 0.2])
                  (apply_processor demo_paz (Squeeze None)
                    [[0.1, 0.1, 0.3, 0.3, 0.9], [0.5, 0.5, 0.9, 0.9, 0.4]]))))))) = Inr denormalized"
    and boxes: "[\<lparr>coordinates = [64, 64, 192, 192], score = 0.9, class_name = ''driller''\<rparr>] =
       RoundBoxes2D_call demo_paz (ScaleBoxes2D_call demo_paz denormalized (1 / 1))"
    by blast
  from den demo_nms demo_filter demo_denormalize
  have "denormalized = [\<lparr>coordinates = [64, 64, 192, 192], score = 0.9, class_name = ''driller''\<rparr>]"
    by (simp add: demo_paz_fields demo_to_boxes2D_def score_of_def first_name_def)
  with boxes demo_call show ?thesis by simp
qed

subsection \<open>No surviving detection\<close>

lemma demo_pp2_low:
  "SequentialProcessor demo_paz (postprocess_2 demo_self) [[0.5, 0.5, 0.9, 0.9, 0.4]] = []"
  by (simp add: SequentialProcessor_def demo_self_stages demo_paz_fields nms_rows_def
      suppress_def corner_of_def score_of_def filter_by_score_def)

lemma reporting_pp: "SequentialProcessor reporting_paz ps x = SequentialProcessor demo_paz ps x"
  by (simp add: SequentialProcessor_def reporting_paz_def)

lemma reporting_paz_fields:
  "ToBoxes2D_call reporting_paz = demo_to_boxes2D"
  "ScaleBoxes2D_call reporting_paz = demo_scale_boxes2D"
  "RoundBoxes2D_call reporting_paz = demo_round_boxes2D"
  "ToPose6D_call reporting_paz =
     (\<lambda>class_names box_data rotations translations.
        [\<lparr>rotation = Arr [], translation = Arr [], pose_class_name = ''called''\<rparr>])"
  by (simp_all add: reporting_paz_def demo_paz_def)

text \<open>
  What the code does when no detection survives: after the guarded block, which is skipped,
  the pose processor is called with the empty \<open>box_data\<close> and the rotation and translation
  arrays as they were sliced, three-dimensional and unselected; its result is returned as
  \<open>poses6D\<close>.
\<close>

lemma zero_survivors_call:
  fixes P :: "'row list paz"
  assumes "image_scale \<noteq> 0"
    and "SequentialProcessor P (postprocess_2 self)
           (SequentialProcessor P (postprocess_1 self) detections) = []"
    and "ToBoxes2D_call P (to_boxes2D self) [] = []"
    and "ScaleBoxes2D_call P [] (1 / image_scale) = []"
    and "RoundBoxes2D_call P [] = []"
  shows "call P self img (detections, transformations) image_scale cam =
           Inr ([], ToPose6D_call P (to_pose_6D self) []
                  (of3 (map (map (slice_upto (num_pose_dims self))) transformations))
                  (of3 (map (map (slice_from (num_pose_dims self))) transformations)))"
  using assms
  by (simp add: call_def Let_def and_then_def py_div_def DenormalizeBoxes2D_call_def)

text \<open>
  C3: the claim is that on an input that leaves no surviving detection the pipeline returns
  \<open>boxes2D = []\<close> and \<open>poses6D = []\<close> without an exception and skips the pose assembly
  entirely. The code sets \<open>poses6D = []\<close> and guards the selection of the regressions with
  \<open>len(boxes2D) > 0\<close>, but then assigns \<open>poses6D = self.to_pose_6D(...)\<close> outside the guard:
  the pose assembly is not skipped. On one detection of score 0.4, below the threshold
  0.5, and \<open>image_scale = 1\<close>, no box survives; a pose processor that reports its call by
  returning a fixed pose shows that it is called, and that the pipeline returns what it
  returns. With the pose processor of the design document the returned list is empty.
\<close>

theorem pose_assembly_not_skipped_without_survivors:
  "call reporting_paz demo_self demo_image
     ([[0.5, 0.5, 0.9, 0.9, 0.4]], [[[0.5, 0, - 0.5, 1, 2, 3]]]) 1 () =
     Inr ([], [\<lparr>rotation = Arr [], translation = Arr [], pose_class_name = ''called''\<rparr>])
   \<and> call demo_paz demo_self demo_image
     ([[0.5, 0.5, 0.9, 0.9, 0.4]], [[[0.5, 0, - 0.5, 1, 2, 3]]]) 1 () = Inr ([], [])"
proof -
  have none: "SequentialProcessor demo_paz (postprocess_2 demo_self)
      (SequentialProcessor demo_paz (postprocess_1 demo_self) [[0.5, 0.5, 0.9, 0.9, 0.4]]) = []"
    using demo_pp2_low by (simp add: demo_pp1)
  then have "SequentialProcessor reporting_paz (postprocess_2 demo_self)
      (SequentialProcessor reporting_paz (postprocess_1 demo_self)
        [[0.5, 0.5, 0.9, 0.9, 0.4]]) = []"
    by (simp add: reporting_pp)
  then have "call reporting_paz demo_self demo_image
     ([[0.5, 0.5, 0.9, 0.9, 0.4]], [[[0.5, 0, - 0.5, 1, 2, 3]]]) 1 () =
     Inr ([], [\<lparr>rotation = Arr [], translation = Arr [], pose_class_name = ''called''\<rparr>])"
    by (subst zero_survivors_call)
      (simp_all add: reporting_paz_fields demo_to_boxes2D_def demo_scale_boxes2D_def
        demo_round_boxes2D_def)
  moreover from none have "call demo_paz demo_self demo_image
     ([[0.5, 0.5, 0.9, 0.9, 0.4]], [[[0.5, 0, - 0.5, 1, 2, 3]]]) 1 () = Inr ([], [])"
    by (subst zero_survivors_call)
      (simp_all add: demo_paz_fields demo_to_boxes2D_def demo_scale_boxes2D_def
        demo_round_boxes2D_def assemble_def)
  ultimately show ?thesis by simp
qed

subsection \<open>Image scale and denormalisation\<close>

lemma demo_pp2_single:
  "SequentialProcessor demo_paz (postprocess_2 demo_self) [[0.103, 0.103, 0.3, 0.3, 0.9]] =
     [[0.103, 0.103, 0.3, 0.3, 0.9]]"
  by (simp add: SequentialProcessor_def demo_self_stages demo_paz_fields nms_rows_def
      suppress_def corner_of_def score_of_def filter_by_score_def)

lemma demo_denormalize_single:
  "DenormalizeBoxes2D_call demo_image
     [\<lparr>coordinates = [0.103, 0.103, 0.3, 0.3], score = 0.9, class_name = ''driller''\<rparr>] =
   Inr [\<lparr>coordinates = [65, 65, 192, 192], score = 0.9, class_name = ''driller''\<rparr>]"
  by (simp add: DenormalizeBoxes2D_call_def denormalize_box_def and_then_def py_int_def
      as_coordinates_def)

lemma demo_call_half:
  "call demo_paz demo_self demo_image
     ([[0.103, 0.103, 0.3, 0.3, 0.9]], [[[0.5, 0, - 0.5, 1, 2, 3]]]) (1 / 2) () =
   Inr ([\<lparr>coordinates = [130, 130, 384, 384], score = 0.9, class_name = ''driller''\<rparr>],
        [\<lparr>rotation = Arr [Num (0.5 * pi), Num 0, Num (- 0.5 * pi)],
          translation = Arr [Num 1, Num 2, Num 3],
          pose_class_name = ''driller''\<rparr>])"
  using demo_pp2_single demo_denormalize_single
  by (simp add: call_def Let_def demo_pp1 demo_self_fields demo_paz_fields
      demo_to_boxes2D_def score_of_def first_name_def and_then_def py_div_def
      demo_scale_boxes2D_def demo_round_boxes2D_def round_half_away_def
      demo_selected_indices_def slice_upto_def slice_from_def squeeze_axis0_def py_index_def
      Scale_call_def assemble_def of1_def of2_def)

text \<open>
  C6, as stated, fails: the inverse image scale is not applied before the denormalisation.
  For the box \<open>[0.103, 0.103, 0.3, 0.3]\<close> and \<open>image_scale = 1 / 2\<close> the pipeline
  denormalises first (\<open>int(65.92) = 65\<close>) and scales then, which gives the coordinate 130;
  scaling the normalised box first and denormalising then gives \<open>int(131.84) = 131\<close>.
\<close>

theorem scale_before_denormalization_counterexample:
  "call demo_paz demo_self demo_image
     ([[0.103, 0.103, 0.3, 0.3, 0.9]], [[[0.5, 0, - 0.5, 1, 2, 3]]]) (1 / 2) () =
   Inr ([\<lparr>coordinates = [130, 130, 384, 384], score = 0.9, class_name = ''driller''\<rparr>],
        [\<lparr>rotation = Arr [Num (0.5 * pi), Num 0, Num (- 0.5 * pi)],
          translation = Arr [Num 1, Num 2, Num 3],
          pose_class_name = ''driller''\<rparr>])
   \<and> scale_before_denormalize demo_paz demo_image
       [\<lparr>coordinates = [0.103, 0.103, 0.3, 0.3], score = 0.9, class_name = ''driller''\<rparr>]
       (1 / 2) =
     Inr [\<lparr>coordinates = [131, 131, 384, 384], score = 0.9, class_name = ''driller''\<rparr>]"
  using demo_call_half
  by (simp add: scale_before_denormalize_def py_div_def and_then_def demo_paz_fields
      demo_scale_boxes2D_def demo_round_boxes2D_def round_half_away_def
      DenormalizeBoxes2D_call_def denormalize_box_def py_int_def as_coordinates_def)

text \<open>
  C6, amended: in every call that returns, \<open>image_scale\<close> is not zero, and the factor
  \<open>1 / image_scale\<close> is applied by \<open>ScaleBoxes2D\<close> to the boxes that \<open>DenormalizeBoxes2D\<close> has
  returned, whose coordinates are integer pixel coordinates: the scale correction comes
  after the denormalisation and before the rounding.
\<close>

theorem scale_applied_after_denormalization:
  assumes "call P self img (detections, transformations) image_scale cam = Inr (boxes2D, poses6D)"
  shows "image_scale \<noteq> 0 \<and>
    (\<exists>normalized pixel_boxes.
        normalized = ToBoxes2D_call P (to_boxes2D self)
          (SequentialProcessor P (postprocess_2 self)
            (SequentialProcessor P (postprocess_1 self) detections))
      \<and> DenormalizeBoxes2D_call img normalized = Inr pixel_boxes
      \<and> length pixel_boxes = length normalized
      \<and> (\<forall>b\<in>set pixel_boxes. \<exists>t. coordinates b = as_coordinates t)
      \<and> boxes2D = RoundBoxes2D_call P (ScaleBoxes2D_call P pixel_boxes (1 / image_scale)))"
proof -
  from call_boxes2D[OF assms] obtain den where nz: "image_scale \<noteq> 0"
    and den: "DenormalizeBoxes2D_call img
            (ToBoxes2D_call P (to_boxes2D self)
              (SequentialProcessor P (postprocess_2 self)
                (SequentialProcessor P (postprocess_1 self) detections))) = Inr den"
    and boxes: "boxes2D = RoundBoxes2D_call P (ScaleBoxes2D_call P den (1 / image_scale))"
    by blast
  from den have "\<forall>b\<in>set den. \<exists>t. coordinates b = as_coordinates t"
    unfolding DenormalizeBoxes2D_call_def by (rule denormalize_each_pixels)
  moreover from den have "length den = length (ToBoxes2D_call P (to_boxes2D self)
              (SequentialProcessor P (postprocess_2 self)
                (SequentialProcessor P (postprocess_1 self) detections)))"
    unfolding DenormalizeBoxes2D_call_def by (rule denormalize_each_length)
  ultimately show ?thesis using nz den boxes by blast
qed

theorem scale_applied_after_denormalization_witness:
  "call demo_paz demo_self demo_image
     ([[0.103, 0.103, 0.3, 0.3, 0.9]], [[[0.5, 0, - 0.5, 1, 2, 3]]]) (1 / 2) () =
   Inr ([\<lparr>coordinates = [130, 130, 384, 384], score = 0.9, class_name = ''driller''\<rparr>],
        [\<lparr>rotation = Arr [Num (0.5 * pi), Num 0, Num (- 0.5 * pi)],
          translation = Arr [Num 1, Num 2, Num 3],
          pose_class_name = ''driller''\<rparr>])
   \<and> [\<lparr>coordinates = [130, 130, 384, 384], score = 0.9, class_name = ''driller''\<rparr>] =
       RoundBoxes2D_call demo_paz (ScaleBoxes2D_call demo_paz
         [\<lparr>coordinates = [65, 65, 192, 192], score = 0.9, class_name = ''driller''\<rparr>]
         (1 / (1 / 2)))"
proof -
  from scale_applied_after_denormalization[OF demo_call_half] obtain pixel_boxes where
    den: "DenormalizeBoxes2D_call demo_image (ToBoxes2D_call demo_paz (to_boxes2D demo_self)
          (SequentialProcessor demo_paz (postprocess_2 demo_self)
            (SequentialProcessor demo_paz (postprocess_1 demo_self)
              [[0.103, 0.103, 0.3, 0.3, 0.9]]))) = Inr pixel_boxes"
    and boxes: "[\<lparr>coordinates = [130, 130, 384, 384], score = 0.9, class_name = ''driller''\<rparr>] =
       RoundBoxes2D_call demo_paz (ScaleBoxes2D_call demo_paz pixel_boxes (1 / (1 / 2)))"
    by blast
  from den demo_pp2_single demo_denormalize_single
  have "pixel_boxes = [\<lparr>coordinates = [65, 65, 192, 192], score = 0.9, class_name = ''driller''\<rparr>]"
    by (simp add: demo_pp1 demo_paz_fields demo_self_fields demo_to_boxes2D_def score_of_def
        first_name_def)
  with boxes demo_call_half show ?thesis by simp
qed

section \<open>Pose assembly\<close>

lemma assemble_length:
  "length (assemble name_of box_data rotations translations) =
     min (length box_data) (min (length (unstack rotations)) (length (unstack translations)))"
  by (simp add: assemble_def)

lemma assemble_nth:
  assumes "i < length (assemble name_of box_data rotations translations)"
  shows "assemble name_of box_data rotations translations ! i =
           \<lparr>rotation = unstack rotations ! i, translation = unstack translations ! i,
            pose_class_name = name_of (box_data ! i)\<rparr>"
  using assms by (simp add: assemble_def)

text \<open>
  C5: for every list of detection rows and rotation and translation arrays aligned with it
  (as many rotation and translation vectors as rows), pose assembly returns exactly one
  pose per row, \<open>len(poses6D) == len(box_data)\<close>, the pose at each position made of the
  rotation, the translation and the row at that position; and for an empty \<open>box_data\<close> it
  returns the empty list, whatever the arrays.
\<close>

theorem assemble_one_pose_per_row:
  assumes "length (unstack rotations) = length box_data"
    and "length (unstack translations) = length box_data"
  shows "length (assemble name_of box_data rotations translations) = length box_data
       \<and> (\<forall>i<length box_data.
             assemble name_of box_data rotations translations ! i =
               \<lparr>rotation = unstack rotations ! i, translation = unstack translations ! i,
                pose_class_name = name_of (box_data ! i)\<rparr>)
       \<and> assemble name_of [] rotations' translations' = []"
proof -
  have len: "length (assemble name_of box_data rotations translations) = length box_data"
    using assms by (simp add: assemble_length)
  moreover have "assemble name_of [] rotations' translations' = []"
    by (simp add: assemble_def)
  moreover have "assemble name_of box_data rotations translations ! i =
               \<lparr>rotation = unstack rotations ! i, translation = unstack translations ! i,
                pose_class_name = name_of (box_data ! i)\<rparr>" if "i < length box_data" for i
    using that len by (intro assemble_nth) simp
  ultimately show ?thesis by blast
qed

theorem assemble_one_pose_per_row_witness:
  "assemble (\<lambda>row. ''driller'') [[0.1, 0.1, 0.3, 0.3, 0.9 :: real], [0.5, 0.5, 0.9, 0.9, 0.8]]
     (of2 [[1, 2, 3], [4, 5, 6]]) (of2 [[7, 8, 9], [10, 11, 12]]) =
   [\<lparr>rotation = of1 [1, 2, 3], translation = of1 [7, 8, 9], pose_class_name = ''driller''\<rparr>,
    \<lparr>rotation = of1 [4, 5, 6], translation = of1 [10, 11, 12], pose_class_name = ''driller''\<rparr>]
   \<and> length (assemble (\<lambda>row. ''driller'')
        [[0.1, 0.1, 0.3, 0.3, 0.9 :: real], [0.5, 0.5, 0.9, 0.9, 0.8]]
        (of2 [[1, 2, 3], [4, 5, 6]]) (of2 [[7, 8, 9], [10, 11, 12]])) = 2"
proof -
  have rows: "length (unstack (of2 [[1, 2, 3], [4, 5, 6]])) =
      length [[0.1, 0.1, 0.3, 0.3, 0.9 :: real], [0.5, 0.5, 0.9, 0.9, 0.8]]"
    and "length (unstack (of2 [[7, 8, 9], [10, 11, 12]])) =
      length [[0.1, 0.1, 0.3, 0.3, 0.9 :: real], [0.5, 0.5, 0.9, 0.9, 0.8]]"
    by (simp_all add: of2_def)
  from assemble_one_pose_per_row[OF this, of "\<lambda>row. ''driller''"]
  have "length (assemble (\<lambda>row. ''driller'')
        [[0.1, 0.1, 0.3, 0.3, 0.9 :: real], [0.5, 0.5, 0.9, 0.9, 0.8]]
        (of2 [[1, 2, 3], [4, 5, 6]]) (of2 [[7, 8, 9], [10, 11, 12]])) =
      length [[0.1, 0.1, 0.3, 0.3, 0.9 :: real], [0.5, 0.5, 0.9, 0.9, 0.8]]"
    by (rule conjunct1)
  then show ?thesis
    by (simp add: of2_def assemble_def)
qed

text \<open>
  What a returning call with at least one box passes to the pose processor: the batch axis
  of the transformations has size one, the rotation and translation parts of the rows at
  the selected indices are taken, and the rotations are scaled.
\<close>

lemma call_poses:
  fixes P :: "'row list paz"
  assumes run: "call P self img (detections, transformations) image_scale cam = Inr (boxes2D, poses6D)"
    and nonempty: "boxes2D \<noteq> []"
  shows "\<exists>batch rotations translations.
      transformations = [batch]
    \<and> index_rows (map (slice_upto (num_pose_dims self)) batch)
          (ComputeSelectedIndices_call P (SequentialProcessor P (postprocess_1 self) detections)
             (SequentialProcessor P (postprocess_2 self)
               (SequentialProcessor P (postprocess_1 self) detections))) = Inr rotations
    \<and> index_rows (map (slice_from (num_pose_dims self)) batch)
          (ComputeSelectedIndices_call P (SequentialProcessor P (postprocess_1 self) detections)
             (SequentialProcessor P (postprocess_2 self)
               (SequentialProcessor P (postprocess_1 self) detections))) = Inr translations
    \<and> poses6D = ToPose6D_call P (to_pose_6D self)
         (SequentialProcessor P (postprocess_2 self)
            (SequentialProcessor P (postprocess_1 self) detections))
         (of2 (Scale_call (transform_rotations self) rotations)) (of2 translations)"
proof -
  from run nonempty obtain batch where "transformations = [batch]"
    by (auto simp: call_def Let_def and_then_def py_div_def squeeze_axis0_def
        split: sum.splits if_splits list.splits)
  with run nonempty show ?thesis
    by (auto simp: call_def Let_def and_then_def py_div_def squeeze_axis0_def
        split: sum.splits if_splits)
qed

lemma py_index_row:
  assumes "py_index xs i = Inr row"
  shows "- int (length xs) \<le> i \<and> i < int (length xs)
       \<and> row = xs ! nat (if i < 0 then int (length xs) + i else i)"
  using assms by (auto simp: py_index_def split: if_splits)

text \<open>
  C4: in a call that returns at least one box, with the pose processor of the design
  document, the rotation placed into the pose of the \<open>i\<close>-th surviving detection is the
  raw rotation regression vector selected for that detection with every value multiplied by
  \<open>pi\<close>: the selected index of the detection is in range, and the rotation consists of the
  first \<open>num_pose_dims\<close> values of the row of the transformations at that index (counted
  from the end when negative), each times \<open>pi\<close>.
\<close>

theorem rotations_scaled_by_pi:
  fixes P :: "'row list paz"
  assumes run: "call P (init prior_boxes class_names score_thresh nms_thresh variances
                  class_arg pose_dims)
             img (detections, transformations) image_scale cam = Inr (boxes2D, poses6D)"
    and survivors: "boxes2D \<noteq> []"
    and pose_processor: "ToPose6D_call P class_names = assemble name_of"
    and i: "i < length poses6D"
  shows "\<exists>batch selected_indices anchor.
      transformations = [batch]
    \<and> selected_indices =
        ComputeSelectedIndices_call P
          (SequentialProcessor P
             [Squeeze None, DecodeBoxes prior_boxes variances, RemoveClass class_names class_arg]
             detections)
          (SequentialProcessor P
             [NonMaximumSuppressionPerClass nms_thresh, MergeNMSBoxWithClass,
              FilterBoxes class_names score_thresh]
             (SequentialProcessor P
                [Squeeze None, DecodeBoxes prior_boxes variances,
                 RemoveClass class_names class_arg]
                detections))
    \<and> i < length selected_indices
    \<and> - int (length batch) \<le> selected_indices ! i
    \<and> selected_indices ! i < int (length batch)
    \<and> anchor = nat (if selected_indices ! i < 0
                     then int (length batch) + selected_indices ! i
                     else selected_indices ! i)
    \<and> anchor < length batch
    \<and> rotation (poses6D ! i) =
        Arr (map (\<lambda>v. Num (v * pi)) (slice_upto pose_dims (batch ! anchor)))"
proof -
  let ?self = "init prior_boxes class_names score_thresh nms_thresh variances class_arg pose_dims"
  let ?all = "SequentialProcessor P (postprocess_1 ?self) detections"
  let ?box_data = "SequentialProcessor P (postprocess_2 ?self) ?all"
  let ?sel = "ComputeSelectedIndices_call P ?all ?box_data"
  from call_poses[OF run survivors] obtain batch rots trans where
    batch: "transformations = [batch]"
    and rots: "index_rows (map (slice_upto (num_pose_dims ?self)) batch) ?sel = Inr rots"
    and poses: "poses6D = ToPose6D_call P (to_pose_6D ?self) ?box_data
         (of2 (Scale_call (transform_rotations ?self) rots)) (of2 trans)"
    by blast
  have fields: "num_pose_dims ?self = pose_dims" "to_pose_6D ?self = class_names"
    "transform_rotations ?self = pi"
    by (simp_all add: init_def)
  from poses have poses': "poses6D = assemble name_of ?box_data (of2 (Scale_call pi rots)) (of2 trans)"
    by (simp add: fields pose_processor)
  with i have "i < length (unstack (of2 (Scale_call pi rots)))"
    by (simp add: assemble_length)
  then have i_rots: "i < length rots"
    by (simp add: of2_def Scale_call_def)
  from index_rows_nth[OF rots] have len: "length rots = length ?sel"
    and nth: "\<forall>i<length ?sel. py_index (map (slice_upto (num_pose_dims ?self)) batch) (?sel ! i)
                 = Inr (rots ! i)"
    by auto
  from i_rots len have i_sel: "i < length ?sel" by simp
  with nth have raw: "py_index (map (slice_upto pose_dims) batch) (?sel ! i) = Inr (rots ! i)"
    by (simp add: fields)
  let ?anchor = "nat (if ?sel ! i < 0 then int (length batch) + ?sel ! i else ?sel ! i)"
  from py_index_row[OF raw] have lo: "- int (length batch) \<le> ?sel ! i"
    and hi: "?sel ! i < int (length batch)"
    and row: "rots ! i = map (slice_upto pose_dims) batch ! ?anchor"
    by simp_all
  from lo hi have anchor: "?anchor < length batch" by auto
  with row have row': "rots ! i = slice_upto pose_dims (batch ! ?anchor)" by simp
  from i poses' have "rotation (poses6D ! i) = unstack (of2 (Scale_call pi rots)) ! i"
    by (simp add: assemble_nth)
  also have "\<dots> = of1 (map (\<lambda>v. v * pi) (rots ! i))"
    using i_rots by (simp add: of2_def Scale_call_def)
  also have "\<dots> = Arr (map (\<lambda>v. Num (v * pi)) (slice_upto pose_dims (batch ! ?anchor)))"
    by (simp add: row' of1_def comp_def)
  finally have rot: "rotation (poses6D ! i) =
      Arr (map (\<lambda>v. Num (v * pi)) (slice_upto pose_dims (batch ! ?anchor)))" .
  have stages: "postprocess_1 ?self =
      [Squeeze None, DecodeBoxes prior_boxes variances, RemoveClass class_names class_arg]"
    "postprocess_2 ?self =
      [NonMaximumSuppressionPerClass nms_thresh, MergeNMSBoxWithClass,
       FilterBoxes class_names score_thresh]"
    by (simp_all add: init_def)
  from batch i_sel lo hi anchor rot show ?thesis
    unfolding stages by blast
qed

text \<open>
  Two detections that both survive, the second with the higher score: suppression orders the
  survivors by score, so the first survivor is detection 1 and its pose carries the rotation
  of row 1 of the transformations.
\<close>

lemma demo_nms_swap:
  "nms_rows 0.45 [[0.1, 0.1, 0.3, 0.3, 0.6], [0.5, 0.5, 0.9, 0.9, 0.9]] =
     [[0.5, 0.5, 0.9, 0.9, 0.9], [0.1, 0.1, 0.3, 0.3, 0.6]]"
  by (simp add: nms_rows_def suppress_def iou_def area_def intersection_def corner_of_def
      score_of_def upt_rec)

lemma demo_pp2_swap:
  "SequentialProcessor demo_paz (postprocess_2 demo_self)
     [[0.1, 0.1, 0.3, 0.3, 0.6], [0.5, 0.5, 0.9, 0.9, 0.9]] =
   [[0.5, 0.5, 0.9, 0.9, 0.9], [0.1, 0.1, 0.3, 0.3, 0.6]]"
  using demo_nms_swap
  by (simp add: SequentialProcessor_def demo_self_stages demo_paz_fields filter_by_score_def)

lemma demo_selected_swap:
  "demo_selected_indices [[0.1, 0.1, 0.3, 0.3, 0.6], [0.5, 0.5, 0.9, 0.9, 0.9]]
     [[0.5, 0.5, 0.9, 0.9, 0.9], [0.1, 0.1, 0.3, 0.3, 0.6]] = [1, 0]"
  by (simp add: demo_selected_indices_def)

lemma demo_denormalize_swap:
  "DenormalizeBoxes2D_call demo_image
     [\<lparr>coordinates = [0.5, 0.5, 0.9, 0.9], score = 0.9, class_name = ''driller''\<rparr>,
      \<lparr>coordinates = [0.1, 0.1, 0.3, 0.3], score = 0.6, class_name = ''driller''\<rparr>] =
   Inr [\<lparr>coordinates = [320, 320, 576, 576], score = 0.9, class_name = ''driller''\<rparr>,
        \<lparr>coordinates = [64, 64, 192, 192], score = 0.6, class_name = ''driller''\<rparr>]"
  by (simp add: DenormalizeBoxes2D_call_def denormalize_box_def and_then_def py_int_def
      as_coordinates_def)

lemma demo_call_swap:
  "call demo_paz demo_self demo_image
     ([[0.1, 0.1, 0.3, 0.3, 0.6], [0.5, 0.5, 0.9, 0.9, 0.9]],
      [[[0.5, 0, - 0.5, 1, 2, 3], [0.25, 0, 0, 4, 5, 6]]]) 1 () =
   Inr ([\<lparr>coordinates = [320, 320, 576, 576], score = 0.9, class_name = ''driller''\<rparr>,
         \<lparr>coordinates = [64, 64, 192, 192], score = 0.6, class_name = ''driller''\<rparr>],
        [\<lparr>rotation = Arr [Num (0.25 * pi), Num 0, Num 0],
          translation = Arr [Num 4, Num 5, Num 6],
          pose_class_name = ''driller''\<rparr>,
         \<lparr>rotation = Arr [Num (0.5 * pi), Num 0, Num (- 0.5 * pi)],
          translation = Arr [Num 1, Num 2, Num 3],
          pose_class_name = ''driller''\<rparr>])"
  using demo_pp2_swap demo_denormalize_swap demo_selected_swap
  by (simp add: call_def Let_def demo_pp1 demo_self_fields demo_paz_fields
      demo_to_boxes2D_def score_of_def first_name_def and_then_def py_div_def
      demo_scale_boxes2D_def demo_round_boxes2D_def round_half_away_def
      slice_upto_def slice_from_def squeeze_axis0_def py_index_def
      Scale_call_def assemble_def of1_def of2_def)

theorem rotations_scaled_by_pi_witness:
  "call demo_paz demo_self demo_image
     ([[0.1, 0.1, 0.3, 0.3, 0.6], [0.5, 0.5, 0.9, 0.9, 0.9]],
      [[[0.5, 0, - 0.5, 1, 2, 3], [0.25, 0, 0, 4, 5, 6]]]) 1 () =
   Inr ([\<lparr>coordinates = [320, 320, 576, 576], score = 0.9, class_name = ''driller''\<rparr>,
         \<lparr>coordinates = [64, 64, 192, 192], score = 0.6, class_name = ''driller''\<rparr>],
        [\<lparr>rotation = Arr [Num (0.25 * pi), Num 0, Num 0],
          translation = Arr [Num 4, Num 5, Num 6],
          pose_class_name = ''driller''\<rparr>,
         \<lparr>rotation = Arr [Num (0.5 * pi), Num 0, Num (- 0.5 * pi)],
          translation = Arr [Num 1, Num 2, Num 3],
          pose_class_name = ''driller''\<rparr>])
   \<and> demo_selected_indices [[0.1, 0.1, 0.3, 0.3, 0.6], [0.5, 0.5, 0.9, 0.9, 0.9]]
       [[0.5, 0.5, 0.9, 0.9, 0.9], [0.1, 0.1, 0.3, 0.3, 0.6]] = [1, 0]
   \<and> Arr [Num (0.25 * pi), Num 0, Num 0] =
       Arr (map (\<lambda>v. Num (v * pi))
         (slice_upto 3 ([[0.5, 0, - 0.5, 1, 2, 3], [0.25, 0, 0, 4, 5, 6]] ! 1)))"
proof -
  note run = demo_call_swap[unfolded demo_self_def]
  have survivors:
    "[\<lparr>coordinates = [320, 320, 576, 576], score = 0.9, class_name = ''driller''\<rparr>,
      \<lparr>coordinates = [64, 64, 192, 192], score = 0.6, class_name = ''driller''\<rparr>] \<noteq> []"
    by simp
  have pose_processor:
    "ToPose6D_call demo_paz [''driller''] = assemble (\<lambda>row. first_name [''driller''])"
    by (simp add: demo_paz_fields)
  have i: "0 < length
       [\<lparr>rotation = Arr [Num (0.25 * pi), Num 0, Num 0],
          translation = Arr [Num 4, Num 5, Num 6],
          pose_class_name = ''driller''\<rparr>,
         \<lparr>rotation = Arr [Num (0.5 * pi), Num 0, Num (- 0.5 * pi)],
          translation = Arr [Num 1, Num 2, Num 3],
          pose_class_name = ''driller''\<rparr>]"
    by simp
  have all_rows: "SequentialProcessor demo_paz
      [Squeeze None, DecodeBoxes [] [0.1, 0.1, 0.2, 0.2], RemoveClass [''driller''] (Some 0)]
      [[0.1, 0.1, 0.3, 0.3, 0.6], [0.5, 0.5, 0.9, 0.9, 0.9]] =
      [[0.1, 0.1, 0.3, 0.3, 0.6], [0.5, 0.5, 0.9, 0.9, 0.9]]"
    using demo_pp1[of "[[0.1, 0.1, 0.3, 0.3, 0.6], [0.5, 0.5, 0.9, 0.9, 0.9]]"]
    by (simp add: demo_self_stages)
  have kept_rows: "SequentialProcessor demo_paz
      [NonMaximumSuppressionPerClass 0.45, MergeNMSBoxWithClass, FilterBoxes [''driller''] 0.5]
      [[0.1, 0.1, 0.3, 0.3, 0.6], [0.5, 0.5, 0.9, 0.9, 0.9]] =
      [[0.5, 0.5, 0.9, 0.9, 0.9], [0.1, 0.1, 0.3, 0.3, 0.6]]"
    using demo_pp2_swap by (simp add: demo_self_stages)
  from rotations_scaled_by_pi[OF run survivors pose_processor i]
  obtain anchor where
    anchor: "anchor = nat (if demo_selected_indices
                  [[0.1, 0.1, 0.3, 0.3, 0.6], [0.5, 0.5, 0.9, 0.9, 0.9]]
                  [[0.5, 0.5, 0.9, 0.9, 0.9], [0.1, 0.1, 0.3, 0.3, 0.6]] ! 0 < 0
               then int (length [[0.5, 0, - 0.5, 1, 2, 3], [0.25, 0, 0, 4, 5, 6 :: real]])
                 + demo_selected_indices
                  [[0.1, 0.1, 0.3, 0.3, 0.6], [0.5, 0.5, 0.9, 0.9, 0.9]]
                  [[0.5, 0.5, 0.9, 0.9, 0.9], [0.1, 0.1, 0.3, 0.3, 0.6]] ! 0
               else demo_selected_indices
                  [[0.1, 0.1, 0.3, 0.3, 0.6], [0.5, 0.5, 0.9, 0.9, 0.9]]
                  [[0.5, 0.5, 0.9, 0.9, 0.9], [0.1, 0.1, 0.3, 0.3, 0.6]] ! 0)"
    and rot: "Arr [Num (0.25 * pi), Num 0, Num 0] =
       Arr (map (\<lambda>v. Num (v * pi))
         (slice_upto 3 ([[0.5, 0, - 0.5, 1, 2, 3], [0.25, 0, 0, 4, 5, 6]] ! anchor)))"
    using all_rows kept_rows
    by (auto simp: demo_paz_fields)
  from anchor demo_selected_swap have "anchor = 1" by simp
  with rot demo_call_swap demo_selected_swap show ?thesis by simp
qed


section \<open>Calls do not depend on one another\<close>











text \<open>
  The hypothesis carries the statement: with the library whose pose processor counts its
  calls, two calls with identical inputs in one session return different results.
\<close>

lemma SequentialProcessor_counting:
  "SequentialProcessor_st counting_paz ps x s = (SequentialProcessor demo_paz ps x, s)"
proof (induction ps arbitrary: x)
  case Nil
  show ?case by (simp add: SequentialProcessor_def)
next
  case (Cons p ps)
  then show ?case
    by (simp add: SequentialProcessor_def counting_paz_def stateless_def)
qed

lemma counting_paz_fields:
  "ToBoxes2D_st counting_paz = (\<lambda>names x s. (demo_to_boxes2D names x, s))"
  "ScaleBoxes2D_st counting_paz = (\<lambda>boxes scale s. (demo_scale_boxes2D boxes scale, s))"
  "RoundBoxes2D_st counting_paz = (\<lambda>boxes s. (demo_round_boxes2D boxes, s))"
  "ToPose6D_st counting_paz =
     (\<lambda>names x r t s.
        (replicate (library_state s)
           \<lparr>rotation = Arr [], translation = Arr [], pose_class_name = ''earlier call''\<rparr>,
         s\<lparr>library_state := Suc (library_state s)\<rparr>))"
  by (simp_all add: counting_paz_def stateless_def demo_paz_fields)

lemma call_st_counting:
  assumes "self_object s = demo_self"
  shows "call_st counting_paz demo_image
           ([[0.5, 0.5, 0.9, 0.9, 0.4]], [[[0.5, 0, - 0.5, 1, 2, 3]]]) 1 () s =
         (Inr ([], replicate (library_state s)
                     \<lparr>rotation = Arr [], translation = Arr [],
                      pose_class_name = ''earlier call''\<rparr>),
          s\<lparr>library_state := Suc (library_state s)\<rparr>)"
  using demo_pp2_low assms
  by (simp add: call_st_def then_st_def calls_def evaluates_def attribute_def
      SequentialProcessor_counting demo_pp1 counting_paz_fields
      demo_self_fields demo_to_boxes2D_def DenormalizeBoxes2D_call_def py_div_def
      demo_scale_boxes2D_def demo_round_boxes2D_def)

lemma library_state_shows_in_results:
  "fst (session counting_paz
         [(demo_image, ([[0.5, 0.5, 0.9, 0.9, 0.4]], [[[0.5, 0, - 0.5, 1, 2, 3]]]), 1, ()),
          (demo_image, ([[0.5, 0.5, 0.9, 0.9, 0.4]], [[[0.5, 0, - 0.5, 1, 2, 3]]]), 1, ())]
         demo_state) =
     [Inr ([], []),
      Inr ([], [\<lparr>rotation = Arr [], translation = Arr [],
                 pose_class_name = ''earlier call''\<rparr>])]
   \<and> \<not> read_only counting_paz"
proof -
  have "snd (ToPose6D_st counting_paz [] [] (Arr []) (Arr []) demo_state) \<noteq> demo_state"
    by (simp add: counting_paz_def demo_state_def)
  then have "\<not> read_only counting_paz"
    unfolding read_only_def by blast
  moreover have "call_st counting_paz demo_image
           ([[0.5, 0.5, 0.9, 0.9, 0.4]], [[[0.5, 0, - 0.5, 1, 2, 3]]]) 1 () demo_state =
         (Inr ([], []), demo_state\<lparr>library_state := Suc 0\<rparr>)"
    using call_st_counting[of demo_state] by (simp add: demo_state_def)
  moreover have "call_st counting_paz demo_image
           ([[0.5, 0.5, 0.9, 0.9, 0.4]], [[[0.5, 0, - 0.5, 1, 2, 3]]]) 1 ()
           (demo_state\<lparr>library_state := Suc 0\<rparr>) =
         (Inr ([], [\<lparr>rotation = Arr [], translation = Arr [],
                     pose_class_name = ''earlier call''\<rparr>]),
          demo_state\<lparr>library_state := Suc (Suc 0)\<rparr>)"
    using call_st_counting[of "demo_state\<lparr>library_state := Suc 0\<rparr>"]
    by (simp add: demo_state_def)
  ultimately show ?thesis
    by simp
qed

end
